theory Spec2Isabelle
  imports Complex_Main "HOL-Library.Sublist"
begin

section \<open>JavaScript values\<close>

text \<open>
  The components are JavaScript: a property of a record can hold a number, the value
  \<open>NaN\<close>, an infinity, a string, or be absent (reading it gives \<open>undefined\<close>), and the
  operators \<open>+\<close>, \<open><\<close>, \<open>>\<close>, \<open>>=\<close>, \<open>===\<close> and \<open>||\<close> coerce their operands. The
  claims about staging and validation depend on these coercions, so they are modelled.

  Finite numbers are exact rationals: the rounding, the overflow and the signed zero of
  IEEE doubles are not modelled. Strings are lists of 8-bit characters.
\<close>

datatype jsnum = Fin rat | NaN | PInf | NInf

datatype jsval = Undefined | Str string | Number jsnum

fun num_add :: "jsnum \<Rightarrow> jsnum \<Rightarrow> jsnum" where
  "num_add (Fin a) (Fin b) = Fin (a + b)"
| "num_add NaN y = NaN"
| "num_add x NaN = NaN"
| "num_add PInf NInf = NaN"
| "num_add NInf PInf = NaN"
| "num_add PInf y = PInf"
| "num_add x PInf = PInf"
| "num_add NInf y = NInf"
| "num_add x NInf = NInf"

fun num_mul :: "jsnum \<Rightarrow> jsnum \<Rightarrow> jsnum" where
  "num_mul (Fin a) (Fin b) = Fin (a * b)"
| "num_mul NaN y = NaN"
| "num_mul x NaN = NaN"
| "num_mul PInf (Fin b) = (if b = 0 then NaN else if 0 < b then PInf else NInf)"
| "num_mul NInf (Fin b) = (if b = 0 then NaN else if 0 < b then NInf else PInf)"
| "num_mul (Fin a) PInf = (if a = 0 then NaN else if 0 < a then PInf else NInf)"
| "num_mul (Fin a) NInf = (if a = 0 then NaN else if 0 < a then NInf else PInf)"
| "num_mul PInf PInf = PInf"
| "num_mul PInf NInf = NInf"
| "num_mul NInf PInf = NInf"
| "num_mul NInf NInf = PInf"

text \<open>Division; a zero divisor is taken as \<open>+0\<close> (every divisor in the modelled code is
  either the literal 100 or guarded by \<open>> 0\<close>).\<close>

fun num_div :: "jsnum \<Rightarrow> jsnum \<Rightarrow> jsnum" where
  "num_div (Fin a) (Fin b) =
     (if b = 0 then (if a = 0 then NaN else if 0 < a then PInf else NInf) else Fin (a / b))"
| "num_div NaN y = NaN"
| "num_div x NaN = NaN"
| "num_div (Fin a) PInf = Fin 0"
| "num_div (Fin a) NInf = Fin 0"
| "num_div PInf (Fin b) = (if 0 \<le> b then PInf else NInf)"
| "num_div NInf (Fin b) = (if 0 \<le> b then NInf else PInf)"
| "num_div PInf PInf = NaN"
| "num_div PInf NInf = NaN"
| "num_div NInf PInf = NaN"
| "num_div NInf NInf = NaN"

text \<open>\<open>x < y\<close> on numbers; a comparison with \<open>NaN\<close> is false.\<close>

fun num_lt :: "jsnum \<Rightarrow> jsnum \<Rightarrow> bool" where
  "num_lt (Fin a) (Fin b) = (a < b)"
| "num_lt NaN y = False"
| "num_lt x NaN = False"
| "num_lt PInf y = False"
| "num_lt NInf NInf = False"
| "num_lt NInf y = True"
| "num_lt (Fin a) PInf = True"
| "num_lt (Fin a) NInf = False"

subsection \<open>Numeric literals in strings\<close>

definition is_digit :: "char \<Rightarrow> bool" where
  "is_digit c = (48 \<le> (of_char c :: nat) \<and> (of_char c :: nat) \<le> 57)"

definition digit_val :: "char \<Rightarrow> nat" where
  "digit_val c = of_char c - 48"

definition nat_of_digits :: "string \<Rightarrow> nat" where
  "nat_of_digits ds = foldl (\<lambda>n c. 10 * n + digit_val c) 0 ds"

text \<open>White space that \<open>parseFloat\<close>, \<open>parseInt\<close> and the string-to-number conversion
  skip: TAB, LF, VT, FF, CR, SP and NBSP (the code units above 255 that JavaScript also
  skips are outside the character type).\<close>

definition is_ws :: "char \<Rightarrow> bool" where
  "is_ws c = ((of_char c :: nat) \<in> {9, 10, 11, 12, 13, 32, 160})"

definition scale10 :: "rat \<Rightarrow> int \<Rightarrow> rat" where
  "scale10 m e = (if 0 \<le> e then m * 10 ^ nat e else m / 10 ^ nat (- e))"

text \<open>\<open>ExponentPart\<close>: \<open>e\<close> or \<open>E\<close>, an optional sign, at least one digit.\<close>

definition scan_exponent :: "string \<Rightarrow> (int \<times> string) option" where
  "scan_exponent s =
     (case s of
        [] \<Rightarrow> None
      | c # r \<Rightarrow>
          if c = CHR ''e'' \<or> c = CHR ''E'' then
            (let (sgn, r') =
                   (case r of
                      [] \<Rightarrow> (1, r)
                    | d # r2 \<Rightarrow> if d = CHR ''+'' then (1, r2)
                                else if d = CHR ''-'' then (- 1, r2) else (1, r));
                 ds = takeWhile is_digit r'
             in if ds = [] then None
                else Some (sgn * int (nat_of_digits ds), dropWhile is_digit r'))
          else None)"

definition with_exponent :: "rat \<Rightarrow> string \<Rightarrow> rat \<times> string" where
  "with_exponent m r =
     (case scan_exponent r of None \<Rightarrow> (m, r) | Some (e, r') \<Rightarrow> (scale10 m e, r'))"

text \<open>The longest prefix that is a \<open>StrUnsignedDecimalLiteral\<close> other than
  \<open>Infinity\<close> (digits, an optional fraction, an optional exponent), with its value and
  the rest of the string.\<close>

definition scan_unsigned_decimal :: "string \<Rightarrow> (rat \<times> string) option" where
  "scan_unsigned_decimal s =
     (let ds1 = takeWhile is_digit s; r1 = dropWhile is_digit s
      in case r1 of
           [] \<Rightarrow> if ds1 = [] then None else Some (of_nat (nat_of_digits ds1), [])
         | c # r2 \<Rightarrow>
             if c = CHR ''.'' then
               (let ds2 = takeWhile is_digit r2; r3 = dropWhile is_digit r2
                in if ds1 = [] \<and> ds2 = [] then None
                   else Some (with_exponent
                     (of_nat (nat_of_digits ds1)
                        + of_nat (nat_of_digits ds2) / 10 ^ length ds2) r3))
             else if ds1 = [] then None
             else Some (with_exponent (of_nat (nat_of_digits ds1)) r1))"

definition num_neg :: "jsnum \<Rightarrow> jsnum" where
  "num_neg x = (case x of Fin a \<Rightarrow> Fin (- a) | NaN \<Rightarrow> NaN | PInf \<Rightarrow> NInf | NInf \<Rightarrow> PInf)"

definition scan_unsigned :: "string \<Rightarrow> (jsnum \<times> string) option" where
  "scan_unsigned s =
     (if take 8 s = ''Infinity'' then Some (PInf, drop 8 s)
      else map_option (\<lambda>(v, r). (Fin v, r)) (scan_unsigned_decimal s))"

text \<open>The longest prefix that is a \<open>StrDecimalLiteral\<close>: an optional sign and an
  unsigned literal.\<close>

definition scan_decimal :: "string \<Rightarrow> (jsnum \<times> string) option" where
  "scan_decimal s =
     (case s of
        [] \<Rightarrow> None
      | c # r \<Rightarrow>
          if c = CHR ''+'' then scan_unsigned r
          else if c = CHR ''-'' then map_option (\<lambda>(v, r'). (num_neg v, r')) (scan_unsigned r)
          else scan_unsigned s)"

text \<open>\<open>parseFloat(s)\<close>: skip leading white space, read the longest decimal literal,
  ignore what follows; \<open>NaN\<close> when there is none.\<close>

definition parseFloat :: "string \<Rightarrow> jsnum" where
  "parseFloat s =
     (case scan_decimal (dropWhile is_ws s) of None \<Rightarrow> NaN | Some (v, r) \<Rightarrow> v)"

definition hex_val :: "char \<Rightarrow> nat option" where
  "hex_val c =
     (let k = (of_char c :: nat)
      in if 48 \<le> k \<and> k \<le> 57 then Some (k - 48)
         else if 97 \<le> k \<and> k \<le> 102 then Some (k - 87)
         else if 65 \<le> k \<and> k \<le> 70 then Some (k - 55)
         else None)"

definition radix_val :: "nat \<Rightarrow> char \<Rightarrow> nat option" where
  "radix_val R c = (case hex_val c of None \<Rightarrow> None | Some d \<Rightarrow> if d < R then Some d else None)"

definition nat_of_radix :: "nat \<Rightarrow> string \<Rightarrow> nat" where
  "nat_of_radix R ds = foldl (\<lambda>n c. R * n + (case radix_val R c of None \<Rightarrow> 0 | Some d \<Rightarrow> d)) 0 ds"

text \<open>\<open>parseInt(s)\<close> with no radix argument: skip leading white space, an optional
  sign, an optional \<open>0x\<close> or \<open>0X\<close> (radix 16, otherwise 10), then the longest run of
  digits of the radix; \<open>NaN\<close> when that run is empty.\<close>

definition parseInt :: "string \<Rightarrow> jsnum" where
  "parseInt s =
     (let t = dropWhile is_ws s;
          neg = (t \<noteq> [] \<and> hd t = CHR ''-'');
          t1 = (if t \<noteq> [] \<and> (hd t = CHR ''+'' \<or> hd t = CHR ''-'') then tl t else t);
          hex = (take 2 t1 = ''0x'' \<or> take 2 t1 = ''0X'');
          R = (if hex then 16 else 10);
          t2 = (if hex then drop 2 t1 else t1);
          z = takeWhile (\<lambda>c. radix_val R c \<noteq> None) t2
      in if z = [] then NaN
         else Fin (if neg then - of_nat (nat_of_radix R z) else of_nat (nat_of_radix R z)))"

definition trim :: "string \<Rightarrow> string" where
  "trim s = rev (dropWhile is_ws (rev (dropWhile is_ws s)))"

definition scan_nondecimal :: "string \<Rightarrow> jsnum option" where
  "scan_nondecimal t =
     (let p = take 2 t;
          R = (if p = ''0x'' \<or> p = ''0X'' then 16
               else if p = ''0o'' \<or> p = ''0O'' then 8
               else if p = ''0b'' \<or> p = ''0B'' then 2 else (0::nat));
          ds = drop 2 t
      in if R \<noteq> 0 \<and> ds \<noteq> [] \<and> list_all (\<lambda>c. radix_val R c \<noteq> None) ds
         then Some (Fin (of_nat (nat_of_radix R ds))) else None)"

text \<open>The conversion of a string to a number (as \<open><\<close> and \<open>+\<close> apply it): the trimmed
  string must be empty (0), a whole decimal literal, or a whole \<open>0x\<close>, \<open>0o\<close> or \<open>0b\<close>
  integer; anything else is \<open>NaN\<close>.\<close>

definition string_to_number :: "string \<Rightarrow> jsnum" where
  "string_to_number s =
     (let t = trim s
      in if t = [] then Fin 0
         else case scan_nondecimal t of
                Some v \<Rightarrow> v
              | None \<Rightarrow> (case scan_decimal t of
                           Some (v, r) \<Rightarrow> if r = [] then v else NaN
                         | None \<Rightarrow> NaN))"

fun to_number :: "jsval \<Rightarrow> jsnum" where
  "to_number Undefined = NaN"
| "to_number (Str s) = string_to_number s"
| "to_number (Number n) = n"

subsection \<open>Numbers as strings\<close>

definition digit_char :: "nat \<Rightarrow> char" where
  "digit_char d = ''0123456789'' ! d"

fun digits_of :: "nat \<Rightarrow> string" where
  "digits_of n =
     (if n < 10 then [digit_char n] else digits_of (n div 10) @ [digit_char (n mod 10)])"

declare digits_of.simps [simp del]

definition int_to_string :: "int \<Rightarrow> string" where
  "int_to_string i = (if i < 0 then CHR ''-'' # digits_of (nat (- i)) else digits_of (nat i))"

text \<open>The string of a number. An integer below \<open>10^21\<close> in magnitude prints as its
  decimal digits. For any other finite number JavaScript prints the shortest decimal
  that reads back as the same double, which an exact rational does not determine: the
  result is left unspecified there, so nothing is proved about it.\<close>

definition num_to_string :: "jsnum \<Rightarrow> string" where
  "num_to_string x =
     (case x of
        NaN \<Rightarrow> ''NaN''
      | PInf \<Rightarrow> ''Infinity''
      | NInf \<Rightarrow> ''-Infinity''
      | Fin r \<Rightarrow> if of_int \<lfloor>r\<rfloor> = r \<and> \<bar>r\<bar> < 10 ^ 21 then int_to_string \<lfloor>r\<rfloor> else undefined)"

fun to_string :: "jsval \<Rightarrow> string" where
  "to_string Undefined = ''undefined''"
| "to_string (Str s) = s"
| "to_string (Number n) = num_to_string n"

subsection \<open>Operators\<close>

fun is_str :: "jsval \<Rightarrow> bool" where
  "is_str (Str s) = True"
| "is_str v = False"

text \<open>\<open>a + b\<close>: concatenation as soon as one operand is a string, addition of the two
  numbers otherwise.\<close>

definition js_add :: "jsval \<Rightarrow> jsval \<Rightarrow> jsval" where
  "js_add a b =
     (if is_str a \<or> is_str b then Str (to_string a @ to_string b)
      else Number (num_add (to_number a) (to_number b)))"

definition js_mul :: "jsval \<Rightarrow> jsval \<Rightarrow> jsval" where
  "js_mul a b = Number (num_mul (to_number a) (to_number b))"

definition js_div :: "jsval \<Rightarrow> jsval \<Rightarrow> jsval" where
  "js_div a b = Number (num_div (to_number a) (to_number b))"

fun str_lt :: "string \<Rightarrow> string \<Rightarrow> bool" where
  "str_lt [] [] = False"
| "str_lt [] (y # ys) = True"
| "str_lt (x # xs) [] = False"
| "str_lt (x # xs) (y # ys) =
     ((of_char x :: nat) < of_char y \<or> (x = y \<and> str_lt xs ys))"

text \<open>\<open>a < b\<close>: two strings compare by code units, anything else as numbers.\<close>

fun js_lt :: "jsval \<Rightarrow> jsval \<Rightarrow> bool" where
  "js_lt (Str s) (Str t) = str_lt s t"
| "js_lt a b = num_lt (to_number a) (to_number b)"

definition js_gt :: "jsval \<Rightarrow> jsval \<Rightarrow> bool" where
  "js_gt a b = js_lt b a"

text \<open>\<open>a >= b\<close> is false when \<open>a < b\<close> is true or undefined (a \<open>NaN\<close> operand).\<close>

fun js_ge :: "jsval \<Rightarrow> jsval \<Rightarrow> bool" where
  "js_ge (Str s) (Str t) = (\<not> str_lt s t)"
| "js_ge a b =
     (to_number a \<noteq> NaN \<and> to_number b \<noteq> NaN \<and> \<not> num_lt (to_number a) (to_number b))"

fun strict_eq :: "jsval \<Rightarrow> jsval \<Rightarrow> bool" where
  "strict_eq (Number NaN) b = False"
| "strict_eq a (Number NaN) = False"
| "strict_eq a b = (a = b)"

fun truthy :: "jsval \<Rightarrow> bool" where
  "truthy Undefined = False"
| "truthy (Str s) = (s \<noteq> [])"
| "truthy (Number (Fin r)) = (r \<noteq> 0)"
| "truthy (Number NaN) = False"
| "truthy (Number PInf) = True"
| "truthy (Number NInf) = True"

definition js_or :: "jsval \<Rightarrow> jsval \<Rightarrow> jsval" where
  "js_or a b = (if truthy a then a else b)"

subsection \<open>Objects\<close>

text \<open>A flat object: a finite map from property names to values. Reading an absent
  property gives \<open>undefined\<close>; the spread \<open>{...a, ...b}\<close> is \<open>a ++ b\<close>.\<close>

type_synonym obj = "string \<rightharpoonup> jsval"

definition getp :: "obj \<Rightarrow> string \<Rightarrow> jsval" where
  "getp r f = (case r f of None \<Rightarrow> Undefined | Some v \<Rightarrow> v)"

abbreviation num_val :: "rat \<Rightarrow> jsval" where
  "num_val r \<equiv> Number (Fin r)"

definition year_val :: "int \<Rightarrow> jsval" where
  "year_val y = num_val (of_int y)"

section \<open>Validation\<close>

text \<open>\<open>RegionalAnalysis.validateForm\<close>, on the edit form. Each test is an \<open>if\<close> of its
  own that pushes its message.\<close>

definition validateForm :: "obj \<Rightarrow> string list" where
  "validateForm editForm =
     (let taxpayers = getp editForm ''taxpayers'';
          averageTax = getp editForm ''averageTax'';
          totalTax = getp editForm ''totalTax'';
          salaryTaxpayers = getp editForm ''salaryTaxpayers'';
          eVatTaxpayers = getp editForm ''eVatTaxpayers'';
          otherTaxpayers = getp editForm ''otherTaxpayers'';
          complianceRate = getp editForm ''complianceRate''
      in (if js_lt taxpayers (num_val 0) then [''Taxpayers cannot be negative.''] else [])
       @ (if js_lt averageTax (num_val 0) then [''Average Tax cannot be negative.''] else [])
       @ (if js_lt totalTax (num_val 0) then [''Total Tax cannot be negative.''] else [])
       @ (if js_lt salaryTaxpayers (num_val 0)
          then [''Salary Taxpayers cannot be negative.''] else [])
       @ (if js_lt eVatTaxpayers (num_val 0)
          then [''E-VAT Taxpayers cannot be negative.''] else [])
       @ (if js_lt otherTaxpayers (num_val 0)
          then [''Other Taxpayers cannot be negative.''] else [])
       @ (if js_lt complianceRate (num_val 0) \<or> js_gt complianceRate (num_val 1)
          then [''Compliance Rate must be between 0 and 1.''] else [])
       @ (if js_gt (js_add (js_add salaryTaxpayers eVatTaxpayers) otherTaxpayers) taxpayers
          then [''Sum of Salary, E-VAT, and Other Taxpayers cannot exceed Total Taxpayers.'']
          else []))"

text \<open>\<open>Dashboard.validateEdit\<close>: the same tests on the staged record; only the text of
  the compliance message differs.\<close>

definition validateEdit :: "obj \<Rightarrow> string list" where
  "validateEdit data =
     ((if js_lt (getp data ''taxpayers'') (num_val 0)
       then [''Taxpayers cannot be negative.''] else [])
    @ (if js_lt (getp data ''averageTax'') (num_val 0)
       then [''Average Tax cannot be negative.''] else [])
    @ (if js_lt (getp data ''totalTax'') (num_val 0)
       then [''Total Tax cannot be negative.''] else [])
    @ (if js_lt (getp data ''salaryTaxpayers'') (num_val 0)
       then [''Salary Taxpayers cannot be negative.''] else [])
    @ (if js_lt (getp data ''eVatTaxpayers'') (num_val 0)
       then [''E-VAT Taxpayers cannot be negative.''] else [])
    @ (if js_lt (getp data ''otherTaxpayers'') (num_val 0)
       then [''Other Taxpayers cannot be negative.''] else [])
    @ (if js_lt (getp data ''complianceRate'') (num_val 0)
          \<or> js_gt (getp data ''complianceRate'') (num_val 1)
       then [''Compliance Rate must be between 0 and 100%.''] else [])
    @ (if js_gt (js_add (js_add (getp data ''salaryTaxpayers'') (getp data ''eVatTaxpayers''))
                   (getp data ''otherTaxpayers''))
            (getp data ''taxpayers'')
       then [''Sum of Salary, E-VAT, and Other Taxpayers cannot exceed Total Taxpayers.'']
       else []))"

text \<open>The constraints as the specification words them, on a record of seven numbers:
  the message of every violated constraint, in the order of the tests. \<open>cmsg\<close> is the
  text of the compliance message.\<close>

definition violated_messages ::
  "string \<Rightarrow> rat \<Rightarrow> rat \<Rightarrow> rat \<Rightarrow> rat \<Rightarrow> rat \<Rightarrow> rat \<Rightarrow> rat \<Rightarrow> string list" where
  "violated_messages cmsg t a tt sl ev ot c =
     map snd (filter fst
       [(t < 0, ''Taxpayers cannot be negative.''),
        (a < 0, ''Average Tax cannot be negative.''),
        (tt < 0, ''Total Tax cannot be negative.''),
        (sl < 0, ''Salary Taxpayers cannot be negative.''),
        (ev < 0, ''E-VAT Taxpayers cannot be negative.''),
        (ot < 0, ''Other Taxpayers cannot be negative.''),
        (c < 0 \<or> 1 < c, cmsg),
        (t < sl + ev + ot,
         ''Sum of Salary, E-VAT, and Other Taxpayers cannot exceed Total Taxpayers.'')])"

text \<open>A record whose seven data properties are the given finite numbers (it may have
  other properties, such as \<open>region\<close> and \<open>year\<close>).\<close>

definition has_numbers ::
  "obj \<Rightarrow> rat \<Rightarrow> rat \<Rightarrow> rat \<Rightarrow> rat \<Rightarrow> rat \<Rightarrow> rat \<Rightarrow> rat \<Rightarrow> bool" where
  "has_numbers r t a tt sl ev ot c =
     (r ''taxpayers'' = Some (num_val t) \<and> r ''averageTax'' = Some (num_val a)
      \<and> r ''totalTax'' = Some (num_val tt) \<and> r ''salaryTaxpayers'' = Some (num_val sl)
      \<and> r ''eVatTaxpayers'' = Some (num_val ev) \<and> r ''otherTaxpayers'' = Some (num_val ot)
      \<and> r ''complianceRate'' = Some (num_val c))"

text \<open>Taxpayer counts are integers. Up to \<open>2^53\<close> in magnitude an integer is a double and
  the sum of two of them is formed without rounding, so that on such counts the exact
  sum of the model is the sum the program computes.\<close>

definition safe_counts :: "int \<Rightarrow> int \<Rightarrow> int \<Rightarrow> int \<Rightarrow> bool" where
  "safe_counts t sl ev ot = (\<bar>t\<bar> \<le> 2 ^ 53 \<and> \<bar>sl\<bar> + \<bar>ev\<bar> + \<bar>ot\<bar> \<le> 2 ^ 53)"

definition year_record ::
  "rat \<Rightarrow> rat \<Rightarrow> rat \<Rightarrow> rat \<Rightarrow> rat \<Rightarrow> rat \<Rightarrow> rat \<Rightarrow> obj" where
  "year_record t a tt sl ev ot c =
     [''taxpayers'' \<mapsto> num_val t, ''averageTax'' \<mapsto> num_val a, ''totalTax'' \<mapsto> num_val tt,
      ''salaryTaxpayers'' \<mapsto> num_val sl, ''eVatTaxpayers'' \<mapsto> num_val ev,
      ''otherTaxpayers'' \<mapsto> num_val ot, ''complianceRate'' \<mapsto> num_val c]"

section \<open>The Dataset Store\<close>

text \<open>The collection \<open>regions\<close>: documents \<open>{ region, yearlyData }\<close>, each under a
  document id, in the order \<open>getDocs\<close> returns them. The region name is a string and
  \<open>yearlyData\<close> an array of flat records; the values inside the records are untyped.\<close>

record region_doc =
  region :: string
  yearlyData :: "obj list"

type_synonym store = "(string \<times> region_doc) list"

text \<open>\<open>d.year === selectedYear\<close>; the selected year is an integer (2025 at the start,
  then \<open>parseInt\<close> of an option of the year selector).\<close>

definition is_year :: "int \<Rightarrow> obj \<Rightarrow> bool" where
  "is_year y d = strict_eq (getp d ''year'') (year_val y)"

definition zeroYearData :: obj where
  "zeroYearData =
     [''taxpayers'' \<mapsto> num_val 0, ''averageTax'' \<mapsto> num_val 0, ''totalTax'' \<mapsto> num_val 0,
      ''salaryTaxpayers'' \<mapsto> num_val 0, ''eVatTaxpayers'' \<mapsto> num_val 0,
      ''otherTaxpayers'' \<mapsto> num_val 0, ''complianceRate'' \<mapsto> num_val 0]"

text \<open>\<open>region.yearlyData.find((d) => d.year === selectedYear) || { taxpayers: 0, ... }\<close>
  (an object is always truthy, so the zero record stands in only when nothing is found).\<close>

definition yearData_of :: "int \<Rightarrow> region_doc \<Rightarrow> obj" where
  "yearData_of y doc =
     (case List.find (is_year y) (yearlyData doc) of None \<Rightarrow> zeroYearData | Some d \<Rightarrow> d)"

text \<open>\<open>updateDoc(ref, { yearlyData })\<close> replaces the field in the document with that id
  and fails when there is no such document.\<close>

definition updateDoc :: "string \<Rightarrow> obj list \<Rightarrow> store \<Rightarrow> store option" where
  "updateDoc ident ys db =
     (if ident \<in> set (map fst db)
      then Some (map (\<lambda>(k, d). if k = ident then (k, d\<lparr>yearlyData := ys\<rparr>) else (k, d)) db)
      else None)"

text \<open>The merge of both \<open>saveEdits\<close> (RegionalAnalysis lines 175-181, Dashboard lines
  1494-1500): every record of the selected year is replaced by
  \<open>{ ...edits, year: selectedYear }\<close>, which is pushed at the end when no record has
  that year.\<close>

definition mergeYear :: "int \<Rightarrow> obj \<Rightarrow> obj list \<Rightarrow> obj list" where
  "mergeYear y edits yearly =
     (let updatedYearlyData =
            map (\<lambda>data. if is_year y data then edits(''year'' \<mapsto> year_val y) else data) yearly
      in if \<not> list_ex (is_year y) yearly
         then updatedYearlyData @ [edits(''year'' \<mapsto> year_val y)]
         else updatedYearlyData)"

text \<open>The body of the \<open>try\<close> block up to \<open>await updateDoc\<close>, the same in both
  components: the document reference needs a string; all documents are fetched and the
  first whose \<open>region\<close> is the edited region's is taken (\<open>.data()\<close> on a missing one
  throws); its merged \<open>yearlyData\<close> is written under the id \<open>regionName\<close>. \<open>None\<close>
  is an exception that reaches the \<open>catch\<close>. \<open>fetch_ok\<close> and \<open>write_ok\<close> say whether
  the transport lets \<open>getDocs\<close> and \<open>updateDoc\<close> succeed (any other reason the
  client has to reject the reference or the write counts as \<open>write_ok\<close> being false);
  a failed write leaves the store as it was.\<close>

definition writeYear :: "bool \<Rightarrow> bool \<Rightarrow> jsval \<Rightarrow> int \<Rightarrow> obj \<Rightarrow> store \<Rightarrow> store option" where
  "writeYear fetch_ok write_ok regionName y edits db =
     (case regionName of
        Str name \<Rightarrow>
          if \<not> fetch_ok then None
          else (case List.find (\<lambda>(k, d). strict_eq (Str (region d)) regionName) db of
                  None \<Rightarrow> None
                | Some (k, regionData) \<Rightarrow>
                    if write_ok then updateDoc name (mergeYear y edits (yearlyData regionData)) db
                    else None)
      | _ \<Rightarrow> None)"

section \<open>Component state\<close>

text \<open>The state hooks both components have, then each component's own. The chart data
  and the sort configuration are presentation and left out.\<close>

record view_state =
  searchQuery :: string
  selectedYear :: int
  loading :: bool
  error :: "string option"
  saveError :: "string option"

record regional_analysis = view_state +
  regions :: "obj list"
  selectedRegion :: "obj option"
  activeTab :: string
  editMode :: bool
  editForm :: "obj option"
  saving :: bool

record metrics =
  totalTaxpayers :: jsval
  totalTax :: jsval
  avgTax :: jsval
  avgCompliance :: jsval
  regionalMetrics :: "obj list"

record dashboard = view_state +
  metrics :: metrics
  editedData :: "string \<rightharpoonup> obj"
  isEditing :: "(jsval \<times> string) option"

text \<open>How a call of \<open>saveEdits\<close> ends. The JavaScript function returns nothing and
  reports through \<open>saveError\<close>; the tag names the branch taken.\<close>

datatype outcome =
  Saved | ValidationFailure string | PersistFailure string | NothingToSave | Uncaught

fun join_space :: "string list \<Rightarrow> string" where
  "join_space [] = []"
| "join_space [x] = x"
| "join_space (x # y # ys) = x @ '' '' @ join_space (y # ys)"

definition save_failed :: string where
  "save_failed = ''Failed to save changes to Firestore. Please try again.''"

definition load_failed :: string where
  "load_failed = ''Failed to load data from Firestore. Please try again.''"

section \<open>RegionalAnalysis (Firestore variant)\<close>

definition processedRegions :: "int \<Rightarrow> region_doc list \<Rightarrow> obj list" where
  "processedRegions y docs =
     map (\<lambda>doc. [''region'' \<mapsto> Str (region doc)] ++ yearData_of y doc) docs"

definition fetchRegions_RegionalAnalysis ::
  "bool \<Rightarrow> store \<Rightarrow> regional_analysis \<Rightarrow> regional_analysis" where
  "fetchRegions_RegionalAnalysis fetch_ok db s =
     (if fetch_ok
      then s\<lparr>loading := False, error := None,
             regions := processedRegions (selectedYear s) (map snd db)\<rparr>
      else s\<lparr>loading := False, error := Some load_failed\<rparr>)"

text \<open>\<open>enterEditMode\<close> copies the seven data properties of the selected region into
  the form; with no selected region the property reads throw.\<close>

definition enterEditMode :: "regional_analysis \<Rightarrow> regional_analysis option" where
  "enterEditMode s =
     (case selectedRegion s of
        None \<Rightarrow> None
      | Some sel \<Rightarrow>
          Some (s\<lparr>editMode := True, saveError := None,
                  editForm := Some
                    [''taxpayers'' \<mapsto> getp sel ''taxpayers'',
                     ''averageTax'' \<mapsto> getp sel ''averageTax'',
                     ''totalTax'' \<mapsto> getp sel ''totalTax'',
                     ''salaryTaxpayers'' \<mapsto> getp sel ''salaryTaxpayers'',
                     ''eVatTaxpayers'' \<mapsto> getp sel ''eVatTaxpayers'',
                     ''otherTaxpayers'' \<mapsto> getp sel ''otherTaxpayers'',
                     ''complianceRate'' \<mapsto> getp sel ''complianceRate'']\<rparr>))"

text \<open>\<open>[field]: value === "" ? "" : parseFloat(value) || 0\<close>, for every field.\<close>

definition stage_RegionalAnalysis :: "string \<Rightarrow> jsval" where
  "stage_RegionalAnalysis v =
     (if v = [] then Str [] else js_or (Number (parseFloat v)) (num_val 0))"

definition handleEditChange_RegionalAnalysis ::
  "string \<Rightarrow> string \<Rightarrow> regional_analysis \<Rightarrow> regional_analysis" where
  "handleEditChange_RegionalAnalysis field v s =
     s\<lparr>editForm :=
         Some ((case editForm s of None \<Rightarrow> Map.empty | Some prev \<Rightarrow> prev)
                 (field \<mapsto> stage_RegionalAnalysis v))\<rparr>"

text \<open>The \<open>catch\<close> and \<open>finally\<close> of \<open>RegionalAnalysis.saveEdits\<close>.\<close>

definition caught_RegionalAnalysis ::
  "store \<Rightarrow> regional_analysis \<Rightarrow> outcome \<times> store \<times> regional_analysis" where
  "caught_RegionalAnalysis db s =
     (PersistFailure save_failed, db, s\<lparr>saving := False, saveError := Some save_failed\<rparr>)"

text \<open>\<open>RegionalAnalysis.saveEdits\<close>. \<open>validateForm\<close> destructures the form, which throws
  before the \<open>try\<close> when there is none; inside the \<open>try\<close>, reading
  \<open>selectedRegion.region\<close> throws when no region is selected.\<close>

definition saveEdits_RegionalAnalysis ::
  "bool \<Rightarrow> bool \<Rightarrow> store \<Rightarrow> regional_analysis \<Rightarrow> outcome \<times> store \<times> regional_analysis" where
  "saveEdits_RegionalAnalysis fetch_ok write_ok db s =
     (case editForm s of
        None \<Rightarrow> (Uncaught, db, s)
      | Some form \<Rightarrow>
          let errors = validateForm form
          in if errors \<noteq> []
             then (ValidationFailure (join_space errors), db,
                   s\<lparr>saveError := Some (join_space errors)\<rparr>)
             else
               (case selectedRegion s of
                  None \<Rightarrow> caught_RegionalAnalysis db s
                | Some sel \<Rightarrow>
                    (case writeYear fetch_ok write_ok (getp sel ''region'')
                            (selectedYear s) form db of
                       None \<Rightarrow> caught_RegionalAnalysis db s
                     | Some db' \<Rightarrow>
                         (Saved, db',
                          s\<lparr>saving := False, saveError := None,
                            regions :=
                              map (\<lambda>r. if strict_eq (getp r ''region'') (getp sel ''region'')
                                       then form(''region'' \<mapsto> getp r ''region'') else r)
                                (regions s),
                            selectedRegion := Some (form(''region'' \<mapsto> getp sel ''region'')),
                            editMode := False, editForm := None\<rparr>))))"

section \<open>Dashboard\<close>

text \<open>The key of a pending edit, \<open>`${region}_${selectedYear}`\<close>.\<close>

definition editKey :: "jsval \<Rightarrow> int \<Rightarrow> string" where
  "editKey regionName y = to_string regionName @ ''_'' @ int_to_string y"

text \<open>\<open>xs.reduce((sum, r) => sum + f(r), 0)\<close>.\<close>

definition sum_of :: "('a \<Rightarrow> jsval) \<Rightarrow> 'a list \<Rightarrow> jsval" where
  "sum_of f xs = foldl (\<lambda>sum r. js_add sum (f r)) (num_val 0) xs"

text \<open>The rows of \<open>fetchRegions\<close> (lines 1311-1324): the record of the selected year
  or the zero record, under the pending edit of that region and year if there is one
  (\<open>{ region: region.region, ...yearData, ...edited }\<close>).\<close>

definition regionalMetrics_of :: "(string \<rightharpoonup> obj) \<Rightarrow> int \<Rightarrow> region_doc list \<Rightarrow> obj list" where
  "regionalMetrics_of edits y docs =
     map (\<lambda>doc. [''region'' \<mapsto> Str (region doc)] ++ yearData_of y doc
                 ++ (case edits (editKey (Str (region doc)) y) of
                       None \<Rightarrow> Map.empty
                     | Some edited \<Rightarrow> edited))
       docs"

text \<open>The aggregates over the rows, as computed in \<open>fetchRegions\<close> (lines 1326-1332)
  and again, by the same expressions, in \<open>saveEdits\<close> (lines 1509-1515).\<close>

definition metrics_of :: "obj list \<Rightarrow> metrics" where
  "metrics_of rows =
     (let taxpayers_sum = sum_of (\<lambda>r. getp r ''taxpayers'') rows;
          tax_sum = sum_of (\<lambda>r. getp r ''totalTax'') rows
      in \<lparr>totalTaxpayers = taxpayers_sum,
          totalTax = tax_sum,
          avgTax = (if js_gt taxpayers_sum (num_val 0) then js_div tax_sum taxpayers_sum
                    else num_val 0),
          avgCompliance =
            (if js_gt taxpayers_sum (num_val 0)
             then js_div
                    (sum_of (\<lambda>r. js_mul (getp r ''complianceRate'') (getp r ''taxpayers'')) rows)
                    taxpayers_sum
             else num_val 0),
          regionalMetrics = rows\<rparr>)"

definition fetchRegions_Dashboard :: "bool \<Rightarrow> store \<Rightarrow> dashboard \<Rightarrow> dashboard" where
  "fetchRegions_Dashboard fetch_ok db s =
     (if fetch_ok
      then s\<lparr>loading := False, error := None,
             metrics := metrics_of
               (regionalMetrics_of (editedData s) (selectedYear s) (map snd db))\<rparr>
      else s\<lparr>loading := False, error := Some load_failed\<rparr>)"

definition pending :: "dashboard \<Rightarrow> string \<Rightarrow> obj" where
  "pending s k = (case editedData s k of None \<Rightarrow> Map.empty | Some e \<Rightarrow> e)"

text \<open>\<open>startEditing(region, field)\<close> stages the whole row under the key of its region
  and the selected year.\<close>

definition startEditing :: "obj \<Rightarrow> string \<Rightarrow> dashboard \<Rightarrow> dashboard" where
  "startEditing row field s =
     (let k = editKey (getp row ''region'') (selectedYear s)
      in s\<lparr>saveError := None,
           isEditing := Some (getp row ''region'', field),
           editedData := (editedData s)(k \<mapsto> pending s k ++ row)\<rparr>)"

text \<open>\<open>field === "complianceRate" ? parseFloat(value) / 100
        : parseInt(value.replace(/,/g, "")) || 0\<close>.\<close>

definition stage_Dashboard :: "string \<Rightarrow> string \<Rightarrow> jsval" where
  "stage_Dashboard field v =
     (if field = ''complianceRate'' then js_div (Number (parseFloat v)) (num_val 100)
      else js_or (Number (parseInt (filter (\<lambda>c. c \<noteq> CHR '','') v))) (num_val 0))"

definition handleEditChange_Dashboard :: "obj \<Rightarrow> string \<Rightarrow> string \<Rightarrow> dashboard \<Rightarrow> dashboard" where
  "handleEditChange_Dashboard row field v s =
     (let k = editKey (getp row ''region'') (selectedYear s)
      in s\<lparr>editedData := (editedData s)(k \<mapsto> (pending s k)(field \<mapsto> stage_Dashboard field v))\<rparr>)"

text \<open>\<open>Dashboard.saveEdits\<close>. It returns at once when nothing is being edited or
  nothing is staged under the key. On success the row of the region is replaced, the
  aggregates are recomputed and \<open>isEditing\<close> is cleared; \<open>editedData\<close> is not
  written.\<close>

definition saveEdits_Dashboard ::
  "bool \<Rightarrow> bool \<Rightarrow> store \<Rightarrow> dashboard \<Rightarrow> outcome \<times> store \<times> dashboard" where
  "saveEdits_Dashboard fetch_ok write_ok db s =
     (case isEditing s of
        None \<Rightarrow> (NothingToSave, db, s)
      | Some (editRegion, editField) \<Rightarrow>
          (case editedData s (editKey editRegion (selectedYear s)) of
             None \<Rightarrow> (NothingToSave, db, s\<lparr>isEditing := None\<rparr>)
           | Some editedRegionData \<Rightarrow>
               let errors = validateEdit editedRegionData
               in if errors \<noteq> []
                  then (ValidationFailure (join_space errors), db,
                        s\<lparr>saveError := Some (join_space errors)\<rparr>)
                  else
                    (case writeYear fetch_ok write_ok editRegion (selectedYear s)
                            editedRegionData db of
                       None \<Rightarrow>
                         (PersistFailure save_failed, db,
                          s\<lparr>loading := False, saveError := Some save_failed\<rparr>)
                     | Some db' \<Rightarrow>
                         (Saved, db',
                          s\<lparr>loading := False, saveError := None,
                            metrics := metrics_of
                              (map (\<lambda>r. if strict_eq (getp r ''region'') editRegion
                                         then editedRegionData(''region'' \<mapsto> getp r ''region'')
                                         else r)
                                 (regionalMetrics (metrics s))),
                            isEditing := None\<rparr>))))"

section \<open>View filter\<close>

text \<open>\<open>toLowerCase\<close> on code units below 256: the letters A-Z and the Latin-1 capitals
  (192-222 but for the multiplication sign 215) move up by 32.\<close>

definition lower_char :: "char \<Rightarrow> char" where
  "lower_char c =
     (let k = (of_char c :: nat)
      in if (65 \<le> k \<and> k \<le> 90) \<or> (192 \<le> k \<and> k \<le> 222 \<and> k \<noteq> 215) then char_of (k + 32)
         else c)"

definition toLowerCase :: "string \<Rightarrow> string" where
  "toLowerCase s = map lower_char s"

text \<open>\<open>s.includes(q)\<close>: \<open>q\<close> occurs in \<open>s\<close> as a contiguous run.\<close>

fun str_includes :: "string \<Rightarrow> string \<Rightarrow> bool" where
  "str_includes [] q = (q = [])"
| "str_includes (c # cs) q = (prefix q (c # cs) \<or> str_includes cs q)"

definition tab_filter :: "string \<Rightarrow> obj \<Rightarrow> bool" where
  "tab_filter tab r =
     (if tab = ''high'' then js_ge (getp r ''complianceRate'') (num_val (8 / 10))
      else if tab = ''medium''
        then js_ge (getp r ''complianceRate'') (num_val (5 / 10))
             \<and> js_lt (getp r ''complianceRate'') (num_val (8 / 10))
      else if tab = ''low'' then js_lt (getp r ''complianceRate'') (num_val (5 / 10))
      else True)"

datatype type_error = TypeError

text \<open>The second \<open>.filter\<close>: \<open>region.region.toLowerCase()\<close> throws on a row whose name
  is not a string.\<close>

fun search_filter :: "string \<Rightarrow> obj list \<Rightarrow> type_error + obj list" where
  "search_filter q [] = Inr []"
| "search_filter q (r # rs) =
     (case getp r ''region'' of
        Str name \<Rightarrow>
          (case search_filter q rs of
             Inl e \<Rightarrow> Inl e
           | Inr out \<Rightarrow>
               Inr (if str_includes (toLowerCase name) (toLowerCase q) then r # out else out))
      | _ \<Rightarrow> Inl TypeError)"

text \<open>\<open>filteredRegions\<close> of RegionalAnalysis, in both its variants (lines 236-243 and
  854-861): the rows of the active tab, then those matching the search.\<close>

definition filteredRegions :: "string \<Rightarrow> string \<Rightarrow> obj list \<Rightarrow> type_error + obj list" where
  "filteredRegions tab q rows = search_filter q (filter (tab_filter tab) rows)"

section \<open>TaxSourceBreakdown\<close>

text \<open>An entry of \<open>data.regions\<close> in the local JSON file: its name, its \<open>yearlyData\<close>
  array (empty when it has none) and its other top-level properties.\<close>

record data_region = region_doc +
  top :: obj

record source_totals =
  totalSalaryTaxpayers :: jsval
  totalEVatTaxpayers :: jsval
  totalOtherTaxpayers :: jsval

text \<open>The three reductions of the effect (lines 13-16): each reads a top-level property
  of the entry.\<close>

definition taxSourceTotals :: "data_region list \<Rightarrow> source_totals" where
  "taxSourceTotals rs =
     \<lparr>totalSalaryTaxpayers = sum_of (\<lambda>r. getp (top r) ''salaryTaxpayers'') rs,
      totalEVatTaxpayers = sum_of (\<lambda>r. getp (top r) ''eVatTaxpayers'') rs,
      totalOtherTaxpayers = sum_of (\<lambda>r. getp (top r) ''otherTaxpayers'') rs\<rparr>"

section \<open>Initial states and a sample store\<close>

text \<open>The initial values of the state hooks.\<close>

definition regional_analysis_initial :: regional_analysis where
  "regional_analysis_initial =
     \<lparr>searchQuery = [], selectedYear = 2025, loading = True, error = None, saveError = None,
      regions = [], selectedRegion = None, activeTab = ''all'', editMode = False,
      editForm = None, saving = False\<rparr>"

definition dashboard_initial :: dashboard where
  "dashboard_initial =
     \<lparr>searchQuery = [], selectedYear = 2025, loading = True, error = None, saveError = None,
      metrics = \<lparr>totalTaxpayers = Undefined, totalTax = Undefined, avgTax = Undefined,
                 avgCompliance = Undefined, regionalMetrics = []\<rparr>,
      editedData = Map.empty, isEditing = None\<rparr>"

text \<open>Two regions: Ashanti with records for 2024 and 2025, Volta with one for 2025. In
  2025 they have 100 taxpayers at compliance 0.9 and 300 at 0.5, the scenario of the
  specification.\<close>

definition ashanti_2024 :: obj where
  "ashanti_2024 = (year_record 90 2 180 50 30 10 (7 / 10))(''year'' \<mapsto> year_val 2024)"

definition ashanti_2025 :: obj where
  "ashanti_2025 = (year_record 100 2 200 60 30 10 (9 / 10))(''year'' \<mapsto> year_val 2025)"

definition volta_2025 :: obj where
  "volta_2025 = (year_record 300 1 300 100 100 50 (5 / 10))(''year'' \<mapsto> year_val 2025)"

definition sample_store :: store where
  "sample_store =
     [(''Ashanti'', \<lparr>region = ''Ashanti'', yearlyData = [ashanti_2024, ashanti_2025]\<rparr>),
      (''Volta'', \<lparr>region = ''Volta'', yearlyData = [volta_2025]\<rparr>)]"

text \<open>A form with three violations: a negative average tax, a compliance rate of 1.5,
  and source counts 8 + 5 + 0 above 10 taxpayers.\<close>

definition invalid_form :: obj where
  "invalid_form = year_record 10 (- 1) 5 8 5 0 (3 / 2)"

text \<open>A valid form, the row of Ashanti for 2025, and the two components in the middle
  of an edit of that row.\<close>

definition valid_form :: obj where
  "valid_form = year_record 120 2 240 70 30 20 (85 / 100)"

definition ashanti_row :: obj where
  "ashanti_row = [''region'' \<mapsto> Str ''Ashanti''] ++ ashanti_2025"

definition ra_editing :: regional_analysis where
  "ra_editing =
     regional_analysis_initial
       \<lparr>loading := False,
        regions := processedRegions 2025 (map snd sample_store),
        selectedRegion := Some ashanti_row, editMode := True, editForm := Some valid_form\<rparr>"

definition dashboard_editing :: dashboard where
  "dashboard_editing =
     dashboard_initial
       \<lparr>loading := False,
        metrics := metrics_of (regionalMetrics_of Map.empty 2025 (map snd sample_store)),
        editedData := [''Ashanti_2025'' \<mapsto> ashanti_row ++ valid_form],
        isEditing := Some (Str ''Ashanti'', ''taxpayers'')\<rparr>"

text \<open>The staging rule as the specification words it: compliance is the float parse of
  the percent input divided by 100; the integer-like fields (the four taxpayer counts)
  are parsed after stripping the thousand separators; the other numeric fields are float
  parsed; a failed parse gives 0.\<close>

definition spec_stage :: "string \<Rightarrow> string \<Rightarrow> jsval" where
  "spec_stage field v =
     (if field = ''complianceRate'' then js_div (Number (parseFloat v)) (num_val 100)
      else if field \<in> {''taxpayers'', ''salaryTaxpayers'', ''eVatTaxpayers'', ''otherTaxpayers''}
        then js_or (Number (parseInt (filter (\<lambda>c. c \<noteq> CHR '','') v))) (num_val 0)
      else js_or (Number (parseFloat v)) (num_val 0))"

text \<open>A number, with \<open>NaN\<close> replaced by 0: what \<open>x || 0\<close> makes of a number \<open>x\<close>.\<close>

definition or_zero :: "jsnum \<Rightarrow> jsval" where
  "or_zero x = (case x of NaN \<Rightarrow> num_val 0 | Fin r \<Rightarrow> num_val r | PInf \<Rightarrow> Number PInf
                | NInf \<Rightarrow> Number NInf)"

text \<open>RegionalAnalysis after the fetch and a click on Ashanti's row (\<open>handleRegionClick\<close>
  sets the selected region and leaves edit mode); the Dashboard after the fetch.\<close>

definition ra_selected :: regional_analysis where
  "ra_selected =
     (fetchRegions_RegionalAnalysis True sample_store regional_analysis_initial)
       \<lparr>selectedRegion := Some ashanti_row, editMode := False, editForm := None\<rparr>"

definition dashboard_loaded :: dashboard where
  "dashboard_loaded = fetchRegions_Dashboard True sample_store dashboard_initial"

text \<open>Ashanti's form with the average tax blanked, and Ashanti's row with a compliance
  rate that is not a number; the two components with these staged.\<close>

definition blank_form :: obj where
  "blank_form = (year_record 100 2 200 60 30 10 (9 / 10))(''averageTax'' \<mapsto> Str [])"

definition nan_edit :: obj where
  "nan_edit = ashanti_row(''complianceRate'' \<mapsto> Number NaN)"

text \<open>Ashanti's form with the salary count blanked (what clearing that input stages),
  and a record that has source counts of 5 each and no \<open>taxpayers\<close> property.\<close>

definition blank_salary_form :: obj where
  "blank_salary_form =
     (year_record 100 2 200 60 30 10 (9 / 10))(''salaryTaxpayers'' \<mapsto> Str [])"

definition no_taxpayers_record :: obj where
  "no_taxpayers_record =
     [''averageTax'' \<mapsto> num_val 2, ''totalTax'' \<mapsto> num_val 30,
      ''salaryTaxpayers'' \<mapsto> num_val 5, ''eVatTaxpayers'' \<mapsto> num_val 5,
      ''otherTaxpayers'' \<mapsto> num_val 5, ''complianceRate'' \<mapsto> num_val (9 / 10)]"

definition ra_blank :: regional_analysis where
  "ra_blank = ra_selected\<lparr>editMode := True, editForm := Some blank_form\<rparr>"

definition dashboard_nan :: dashboard where
  "dashboard_nan =
     dashboard_loaded\<lparr>isEditing := Some (Str ''Ashanti'', ''complianceRate''),
       editedData := [''Ashanti_2025'' \<mapsto> nan_edit]\<rparr>"

section \<open>Numeric views\<close>

text \<open>A value that is a finite number, and that number (0 for anything else).\<close>

fun is_fin :: "jsval \<Rightarrow> bool" where
  "is_fin (Number (Fin r)) = True"
| "is_fin v = False"

fun fin_of :: "jsval \<Rightarrow> rat" where
  "fin_of (Number (Fin r)) = r"
| "fin_of v = 0"

text \<open>A row whose taxpayers, total tax and compliance rate are finite numbers.\<close>

definition numeric_row :: "obj \<Rightarrow> bool" where
  "numeric_row r =
     (is_fin (getp r ''taxpayers'') \<and> is_fin (getp r ''totalTax'')
      \<and> is_fin (getp r ''complianceRate''))"

text \<open>The sum of a numeric column, and the sum of compliance rate times taxpayers.\<close>

definition column_sum :: "string \<Rightarrow> obj list \<Rightarrow> rat" where
  "column_sum f rows = sum_list (map (\<lambda>r. fin_of (getp r f)) rows)"

definition weighted_compliance_sum :: "obj list \<Rightarrow> rat" where
  "weighted_compliance_sum rows =
     sum_list (map (\<lambda>r. fin_of (getp r ''complianceRate'') * fin_of (getp r ''taxpayers'')) rows)"

text \<open>The Dashboard with the taxpayers of Ashanti's row being edited to 50 (the row is
  staged by \<open>startEditing\<close>, the field by \<open>handleEditChange\<close>), not saved.\<close>

definition dashboard_typing :: dashboard where
  "dashboard_typing =
     handleEditChange_Dashboard ashanti_row ''taxpayers'' ''50''
       (startEditing ashanti_row ''taxpayers'' dashboard_loaded)"

section \<open>The source breakdown as the specification words it\<close>

text \<open>The specification's \<open>aggregate_by_source\<close>: each source counter summed over all
  the year records of all the regions.\<close>

definition spec_aggregate_by_source :: "data_region list \<Rightarrow> source_totals" where
  "spec_aggregate_by_source rs =
     \<lparr>totalSalaryTaxpayers = sum_of (\<lambda>d. getp d ''salaryTaxpayers'') (concat (map yearlyData rs)),
      totalEVatTaxpayers = sum_of (\<lambda>d. getp d ''eVatTaxpayers'') (concat (map yearlyData rs)),
      totalOtherTaxpayers = sum_of (\<lambda>d. getp d ''otherTaxpayers'') (concat (map yearlyData rs))\<rparr>"

text \<open>The entries of the seed data, with their year series (the shape the upload script
  reads from the JSON file), and flat entries with the counters at the top level.\<close>

definition sample_data_yearly :: "data_region list" where
  "sample_data_yearly =
     [\<lparr>region = ''Ashanti'', yearlyData = [ashanti_2024, ashanti_2025], top = Map.empty\<rparr>,
      \<lparr>region = ''Volta'', yearlyData = [volta_2025], top = Map.empty\<rparr>]"

definition sample_data_flat :: "data_region list" where
  "sample_data_flat =
     [\<lparr>region = ''Ashanti'', yearlyData = [], top = year_record 100 2 200 60 30 10 (9 / 10)\<rparr>,
      \<lparr>region = ''Volta'', yearlyData = [], top = year_record 300 1 300 100 100 50 (5 / 10)\<rparr>]"

definition source_numeric :: "data_region \<Rightarrow> bool" where
  "source_numeric r =
     (is_fin (getp (top r) ''salaryTaxpayers'') \<and> is_fin (getp (top r) ''eVatTaxpayers'')
      \<and> is_fin (getp (top r) ''otherTaxpayers''))"

section \<open>The filter as the specification words it\<close>

text \<open>The name of a row (empty if it has none), and the tiers on a finite compliance
  rate: \<open>high\<close> from 0.8, \<open>medium\<close> from 0.5 to below 0.8, \<open>low\<close> below 0.5; any
  other tab, such as the initial \<open>all\<close>, supplies no tier.\<close>

definition region_name :: "obj \<Rightarrow> string" where
  "region_name r = (case getp r ''region'' of Str n \<Rightarrow> n | _ \<Rightarrow> [])"

definition in_tier :: "string \<Rightarrow> rat \<Rightarrow> bool" where
  "in_tier tab c =
     (if tab = ''high'' then 8 / 10 \<le> c
      else if tab = ''medium'' then 5 / 10 \<le> c \<and> c < 8 / 10
      else if tab = ''low'' then c < 5 / 10
      else True)"

text \<open>The tiers on any number: \<open>NaN\<close> lies in no tier, \<open>+Infinity\<close> in \<open>high\<close> and
  \<open>-Infinity\<close> in \<open>low\<close>.\<close>

definition rate_in_tier :: "string \<Rightarrow> jsnum \<Rightarrow> bool" where
  "rate_in_tier tab x =
     (if tab = ''high'' \<or> tab = ''medium'' \<or> tab = ''low''
      then (case x of Fin c \<Rightarrow> in_tier tab c | NaN \<Rightarrow> False | PInf \<Rightarrow> tab = ''high''
            | NInf \<Rightarrow> tab = ''low'')
      else True)"

text \<open>Containing a query case-insensitively, worded on the characters and without
  \<open>toLowerCase\<close>. The capitals are A-Z and the Latin-1 capitals; two characters are the
  same letter when they are equal or one is a capital and the other the character 32
  code units above it. A string starts with a query when it is at least as long and
  agrees with it letter for letter; it contains the query when one of its suffixes
  starts with it.\<close>

definition is_capital :: "char \<Rightarrow> bool" where
  "is_capital c =
     ((65 \<le> (of_char c :: nat) \<and> (of_char c :: nat) \<le> 90)
      \<or> (192 \<le> (of_char c :: nat) \<and> (of_char c :: nat) \<le> 222 \<and> (of_char c :: nat) \<noteq> 215))"

definition same_letter :: "char \<Rightarrow> char \<Rightarrow> bool" where
  "same_letter c d =
     (c = d \<or> (is_capital c \<and> (of_char d :: nat) = of_char c + 32)
      \<or> (is_capital d \<and> (of_char c :: nat) = of_char d + 32))"

fun starts_ignoring_case :: "string \<Rightarrow> string \<Rightarrow> bool" where
  "starts_ignoring_case s [] = True"
| "starts_ignoring_case [] (d # q) = False"
| "starts_ignoring_case (c # s) (d # q) = (same_letter c d \<and> starts_ignoring_case s q)"

fun contains_ignoring_case :: "string \<Rightarrow> string \<Rightarrow> bool" where
  "contains_ignoring_case [] q = (q = [])"
| "contains_ignoring_case (c # s) q =
     (starts_ignoring_case (c # s) q \<or> contains_ignoring_case s q)"

definition volta_row :: obj where
  "volta_row = [''region'' \<mapsto> Str ''Volta''] ++ volta_2025"

section \<open>Well-formed stores\<close>

text \<open>The document key is the region name, and keys are unique.\<close>

definition keyed_by_region :: "store \<Rightarrow> bool" where
  "keyed_by_region db = (distinct (map fst db) \<and> list_all (\<lambda>(k, d). region d = k) db)"

text \<open>At most one record of the year in a year series, and the position of the first
  record of the year.\<close>

definition at_most_one :: "int \<Rightarrow> obj list \<Rightarrow> bool" where
  "at_most_one y ys = (length (filter (is_year y) ys) \<le> 1)"

definition year_index :: "int \<Rightarrow> obj list \<Rightarrow> nat" where
  "year_index y ys = length (takeWhile (\<lambda>d. \<not> is_year y d) ys)"

text \<open>The same with -500 typed, a value validation would reject at the time of saving.\<close>

definition dashboard_typing_negative :: dashboard where
  "dashboard_typing_negative =
     handleEditChange_Dashboard ashanti_row ''taxpayers'' ''-500''
       (startEditing ashanti_row ''taxpayers'' dashboard_loaded)"

section \<open>Properties of the value layer\<close>

lemma js_add_numbers [simp]: "js_add (Number x) (Number y) = Number (num_add x y)"
  by (simp add: js_add_def)

lemma js_gt_numbers [simp]: "js_gt (Number x) (Number y) = num_lt y x"
  by (simp add: js_gt_def)

lemma strict_eq_Str_right [simp]: "strict_eq v (Str n) = (v = Str n)"
proof (cases v)
  case (Number x)
  then show ?thesis by (cases x) simp_all
qed simp_all

lemma strict_eq_year_val [simp]: "strict_eq (year_val a) (year_val b) = (a = b)"
  by (simp add: year_val_def)

lemma string_to_number_empty [simp]: "string_to_number [] = Fin 0"
  by (simp add: string_to_number_def trim_def)

lemma js_or_number: "js_or (Number x) (num_val 0) = or_zero x"
  by (cases x) (simp_all add: js_or_def or_zero_def)

lemmas parse_defs = parseFloat_def parseInt_def scan_decimal_def scan_unsigned_def
  scan_unsigned_decimal_def is_ws_def is_digit_def nat_of_digits_def digit_val_def
  with_exponent_def scan_exponent_def radix_val_def hex_val_def nat_of_radix_def

lemma toLowerCase_Nil [simp]: "toLowerCase [] = []"
  by (simp add: toLowerCase_def)

lemma str_includes_sublist: "str_includes s q = sublist q s"
  by (induction s) (simp_all add: sublist_Cons_right)

lemma is_fin_num_val: "is_fin v \<Longrightarrow> v = num_val (fin_of v)"
  by (cases v rule: is_fin.cases) simp_all

lemma is_fin_js_mul:
  "is_fin a \<Longrightarrow> is_fin b \<Longrightarrow> is_fin (js_mul a b) \<and> fin_of (js_mul a b) = fin_of a * fin_of b"
  by (cases a rule: is_fin.cases; cases b rule: is_fin.cases) (simp_all add: js_mul_def)

lemma foldl_js_add_fin:
  "\<forall>x\<in>set xs. is_fin (f x) \<Longrightarrow>
   foldl (\<lambda>sum r. js_add sum (f r)) (num_val a) xs
     = num_val (a + sum_list (map (\<lambda>x. fin_of (f x)) xs))"
proof (induction xs arbitrary: a)
  case Nil
  then show ?case by simp
next
  case (Cons x xs)
  from Cons.prems have "f x = num_val (fin_of (f x))"
    by (simp add: is_fin_num_val)
  then have "js_add (num_val a) (f x) = num_val (a + fin_of (f x))"
    by (metis js_add_numbers num_add.simps(1))
  with Cons show ?case
    by (simp add: add.assoc)
qed

lemma sum_of_fin:
  "\<forall>x\<in>set xs. is_fin (f x) \<Longrightarrow> sum_of f xs = num_val (sum_list (map (\<lambda>x. fin_of (f x)) xs))"
  using foldl_js_add_fin [of xs f 0] by (simp add: sum_of_def)

section \<open>Reading objects and records\<close>

lemma getp_upd [simp]: "getp (m(k \<mapsto> v)) k' = (if k' = k then v else getp m k')"
  by (simp add: getp_def)

lemma getp_empty [simp]: "getp Map.empty k = Undefined"
  by (simp add: getp_def)

lemma getp_add: "getp (m ++ n) k = (case n k of None \<Rightarrow> getp m k | Some v \<Rightarrow> v)"
  by (simp add: getp_def map_add_def split: option.splits)

lemma has_numbers_getp:
  assumes "has_numbers r t a tt sl ev ot c"
  shows "getp r ''taxpayers'' = num_val t" "getp r ''averageTax'' = num_val a"
    "getp r ''totalTax'' = num_val tt" "getp r ''salaryTaxpayers'' = num_val sl"
    "getp r ''eVatTaxpayers'' = num_val ev" "getp r ''otherTaxpayers'' = num_val ot"
    "getp r ''complianceRate'' = num_val c"
  using assms by (simp_all add: has_numbers_def getp_def)

lemma has_numbers_year_record: "has_numbers (year_record t a tt sl ev ot c) t a tt sl ev ot c"
  by (simp add: has_numbers_def year_record_def)

lemma has_numbers_override:
  "has_numbers r t a tt sl ev ot c \<Longrightarrow> has_numbers (q ++ r) t a tt sl ev ot c"
  by (simp add: has_numbers_def map_add_def)

lemma getp_year_record:
  "getp (year_record t a tt sl ev ot c) ''salaryTaxpayers'' = num_val sl"
  "getp (year_record t a tt sl ev ot c) ''eVatTaxpayers'' = num_val ev"
  "getp (year_record t a tt sl ev ot c) ''otherTaxpayers'' = num_val ot"
  by (simp_all add: year_record_def)

lemma is_year_candidate [simp]: "is_year y (e(''year'' \<mapsto> year_val y))"
  by (simp add: is_year_def)

lemma is_year_eq: "is_year y d = (getp d ''year'' = year_val y)"
proof (cases "getp d ''year''")
  case (Number n)
  then show ?thesis by (cases n) (simp_all add: is_year_def year_val_def)
qed (simp_all add: is_year_def year_val_def)

lemma yearData_of_eq:
  "yearData_of y doc
     = (case List.find (\<lambda>d. getp d ''year'' = year_val y) (yearlyData doc) of
          None \<Rightarrow> zeroYearData | Some d \<Rightarrow> d)"
proof -
  have "is_year y = (\<lambda>d. getp d ''year'' = year_val y)"
    by (rule ext) (rule is_year_eq)
  then show ?thesis by (simp add: yearData_of_def)
qed

lemma regionalMetrics_metrics_of [simp]: "regionalMetrics (metrics_of rows) = rows"
  by (simp add: metrics_of_def Let_def)

section \<open>Validation on numeric records\<close>

lemma validateForm_numbers:
  assumes "has_numbers r t a tt sl ev ot c"
  shows "validateForm r
         = violated_messages ''Compliance Rate must be between 0 and 1.'' t a tt sl ev ot c"
  by (simp add: validateForm_def violated_messages_def has_numbers_getp [OF assms])

lemma validateEdit_numbers:
  assumes "has_numbers r t a tt sl ev ot c"
  shows "validateEdit r
         = violated_messages ''Compliance Rate must be between 0 and 100%.'' t a tt sl ev ot c"
  by (simp add: validateEdit_def violated_messages_def has_numbers_getp [OF assms])

lemma violated_messages_empty:
  "violated_messages cmsg t a tt sl ev ot c = []
   \<longleftrightarrow> 0 \<le> t \<and> 0 \<le> a \<and> 0 \<le> tt \<and> 0 \<le> sl \<and> 0 \<le> ev \<and> 0 \<le> ot \<and> 0 \<le> c \<and> c \<le> 1
       \<and> sl + ev + ot \<le> t"
  by (auto simp: violated_messages_def)

section \<open>The merge of a year record and the write\<close>

lemma find_keyed:
  "keyed_by_region db \<Longrightarrow> map_of db name = Some doc \<Longrightarrow>
   List.find (\<lambda>(k, d). region d = name) db = Some (name, doc)"
proof (induction db)
  case Nil
  then show ?case by simp
next
  case (Cons p db)
  obtain k d where p: "p = (k, d)" by (cases p)
  from Cons.prems(1) have kd: "region d = k" and rest: "keyed_by_region db"
    by (simp_all add: keyed_by_region_def p)
  show ?case
  proof (cases "k = name")
    case True
    with Cons.prems(2) kd show ?thesis by (auto simp: p)
  next
    case False
    with Cons.prems(2) have "map_of db name = Some doc" by (simp add: p)
    with Cons.IH rest False kd show ?thesis by (auto simp: p)
  qed
qed

lemma map_of_put:
  "map_of (map (\<lambda>(k, d). if k = name then (k, f d) else (k, d)) db) k'
     = (if k' = name then map_option f (map_of db name) else map_of db k')"
  by (induction db) auto

lemma updateDoc_present:
  "map_of db name = Some doc \<Longrightarrow>
   updateDoc name ys db
     = Some (map (\<lambda>(k, d). if k = name then (k, d\<lparr>yearlyData := ys\<rparr>) else (k, d)) db)"
  by (auto simp: updateDoc_def dest: map_of_SomeD intro: rev_image_eqI)

lemma writeYear_keyed:
  assumes "keyed_by_region db" "map_of db name = Some doc"
  shows "writeYear True True (Str name) y e db
     = Some (map (\<lambda>(k, d). if k = name
                    then (k, d\<lparr>yearlyData := mergeYear y e (yearlyData doc)\<rparr>) else (k, d)) db)"
  by (simp add: writeYear_def find_keyed [OF assms] updateDoc_present [OF assms(2)])

lemma writeYear_no_write [simp]: "writeYear fo False rn y e db = None"
  by (simp add: writeYear_def split: jsval.splits option.splits)

lemma mergeYear_absent:
  "\<not> list_ex (is_year y) ys \<Longrightarrow> mergeYear y e ys = ys @ [e(''year'' \<mapsto> year_val y)]"
proof -
  assume a: "\<not> list_ex (is_year y) ys"
  then have "map (\<lambda>data. if is_year y data then e(''year'' \<mapsto> year_val y) else data) ys = ys"
    by (induction ys) auto
  with a show ?thesis by (simp add: mergeYear_def)
qed

lemma replace_one:
  "length (filter P ys) \<le> 1 \<Longrightarrow> list_ex P ys \<Longrightarrow>
   map (\<lambda>d. if P d then c else d) ys = ys[length (takeWhile (\<lambda>d. \<not> P d) ys) := c]"
proof (induction ys)
  case Nil
  then show ?case by simp
next
  case (Cons a ys)
  show ?case
  proof (cases "P a")
    case True
    with Cons.prems(1) have "filter P ys = []" by simp
    then have "map (\<lambda>d. if P d then c else d) ys = ys"
      by (induction ys) (auto split: if_splits)
    with True show ?thesis by simp
  next
    case False
    with Cons show ?thesis by simp
  qed
qed

lemma mergeYear_present:
  "at_most_one y ys \<Longrightarrow> list_ex (is_year y) ys \<Longrightarrow>
   mergeYear y e ys = ys[year_index y ys := e(''year'' \<mapsto> year_val y)]"
  by (simp add: mergeYear_def at_most_one_def year_index_def replace_one)

lemma find_mergeYear:
  "List.find (is_year y) (mergeYear y e ys) = Some (e(''year'' \<mapsto> year_val y))"
proof -
  have "List.find (is_year y)
          (map (\<lambda>data. if is_year y data then e(''year'' \<mapsto> year_val y) else data) ys @ zs)
      = (if list_ex (is_year y) ys then Some (e(''year'' \<mapsto> year_val y))
         else List.find (is_year y) zs)" for zs
    by (induction ys) auto
  from this [of "[]"] this [of "[e(''year'' \<mapsto> year_val y)]"] show ?thesis
    by (simp add: mergeYear_def Let_def)
qed

lemma mergeYear_other_years:
  "filter (\<lambda>d. \<not> is_year y d) (mergeYear y e ys) = filter (\<lambda>d. \<not> is_year y d) ys"
proof -
  have "filter (\<lambda>d. \<not> is_year y d)
          (map (\<lambda>data. if is_year y data then e(''year'' \<mapsto> year_val y) else data) ys)
      = filter (\<lambda>d. \<not> is_year y d) ys"
    by (induction ys) auto
  then show ?thesis by (simp add: mergeYear_def Let_def)
qed

lemma year_index_valid:
  "list_ex (is_year y) ys \<Longrightarrow> year_index y ys < length ys \<and> is_year y (ys ! year_index y ys)"
  unfolding year_index_def by (induction ys) auto

lemma mergeYear_closed_form:
  "at_most_one y ys \<Longrightarrow>
   mergeYear y e ys
     = (if list_ex (is_year y) ys then ys[year_index y ys := e(''year'' \<mapsto> year_val y)]
        else ys @ [e(''year'' \<mapsto> year_val y)])"
  by (simp add: mergeYear_present mergeYear_absent)

lemma yearData_of_merged:
  "yearData_of y (doc\<lparr>yearlyData := mergeYear y e ys\<rparr>) = e(''year'' \<mapsto> year_val y)"
  by (simp add: yearData_of_def find_mergeYear)

lemma written_store:
  assumes "keyed_by_region db" "map_of db name = Some doc"
    and "writeYear True True (Str name) y e db = Some db'"
  shows "map_of db' name = Some (doc\<lparr>yearlyData := mergeYear y e (yearlyData doc)\<rparr>)"
    and "k \<noteq> name \<Longrightarrow> map_of db' k = map_of db k"
  using assms(3) unfolding writeYear_keyed [OF assms(1,2)]
  by (auto simp: map_of_put assms(2))

lemma saveEdits_RegionalAnalysis_saved:
  assumes "keyed_by_region db" "map_of db name = Some doc"
    and "editForm s = Some form" "validateForm form = []"
    and "selectedRegion s = Some sel" "getp sel ''region'' = Str name"
  shows "fst (saveEdits_RegionalAnalysis True True db s) = Saved"
    and "writeYear True True (Str name) (selectedYear s) form db
           = Some (fst (snd (saveEdits_RegionalAnalysis True True db s)))"
  using assms(3-6)
  by (simp_all add: saveEdits_RegionalAnalysis_def writeYear_keyed [OF assms(1,2)])

lemma saveEdits_Dashboard_saved:
  assumes "keyed_by_region db" "map_of db name = Some doc"
    and "isEditing t = Some (Str name, ef)"
    and "editedData t (editKey (Str name) (selectedYear t)) = Some e" "validateEdit e = []"
  shows "fst (saveEdits_Dashboard True True db t) = Saved"
    and "writeYear True True (Str name) (selectedYear t) e db
           = Some (fst (snd (saveEdits_Dashboard True True db t)))"
  using assms(3-5)
  by (simp_all add: saveEdits_Dashboard_def writeYear_keyed [OF assms(1,2)])

lemma saved_state_RegionalAnalysis:
  assumes "fst (saveEdits_RegionalAnalysis fo wo db s) = Saved"
    and "editForm s = Some form" "selectedRegion s = Some sel" "getp sel ''region'' = Str name"
  shows "snd (snd (saveEdits_RegionalAnalysis fo wo db s))
     = s\<lparr>saving := False, saveError := None,
         regions := map (\<lambda>r. if getp r ''region'' = Str name
                              then form(''region'' \<mapsto> Str name) else r) (regions s),
         selectedRegion := Some (form(''region'' \<mapsto> Str name)),
         editMode := False, editForm := None\<rparr>"
proof -
  have m: "map (\<lambda>r. if getp r ''region'' = Str name then form(''region'' \<mapsto> getp r ''region'')
                     else r) (regions s)
      = map (\<lambda>r. if getp r ''region'' = Str name then form(''region'' \<mapsto> Str name) else r)
          (regions s)"
    by (rule map_cong) simp_all
  show ?thesis
    using assms
    by (simp add: saveEdits_RegionalAnalysis_def Let_def caught_RegionalAnalysis_def m
        split: if_splits option.splits)
qed

lemma saved_state_Dashboard:
  assumes "fst (saveEdits_Dashboard fo wo db t) = Saved"
    and "isEditing t = Some (Str name, ef)"
    and "editedData t (editKey (Str name) (selectedYear t)) = Some e"
  shows "snd (snd (saveEdits_Dashboard fo wo db t))
     = t\<lparr>loading := False, saveError := None,
         metrics := metrics_of
           (map (\<lambda>r. if getp r ''region'' = Str name then e(''region'' \<mapsto> Str name) else r)
              (regionalMetrics (metrics t))),
         isEditing := None\<rparr>"
proof -
  have m: "map (\<lambda>r. if getp r ''region'' = Str name then e(''region'' \<mapsto> getp r ''region'')
                     else r) (regionalMetrics (metrics t))
      = map (\<lambda>r. if getp r ''region'' = Str name then e(''region'' \<mapsto> Str name) else r)
          (regionalMetrics (metrics t))"
    by (rule map_cong) simp_all
  show ?thesis
    using assms
    by (simp add: saveEdits_Dashboard_def Let_def m split: if_splits option.splits)
qed

section \<open>Facts about the sample data\<close>

lemma editKey_Ashanti_2025: "editKey (Str ''Ashanti'') 2025 = ''Ashanti_2025''"
  by (simp add: editKey_def int_to_string_def digits_of.simps digit_char_def)

lemma editKey_Volta_2025: "editKey (Str ''Volta'') 2025 = ''Volta_2025''"
  by (simp add: editKey_def int_to_string_def digits_of.simps digit_char_def)

lemma is_year_samples [simp]:
  "is_year y ashanti_2024 = (y = 2024)" "is_year y ashanti_2025 = (y = 2025)"
  "is_year y volta_2025 = (y = 2025)"
  by (auto simp: is_year_def ashanti_2024_def ashanti_2025_def volta_2025_def)

lemma getp_ashanti_row_region [simp]: "getp ashanti_row ''region'' = Str ''Ashanti''"
  by (simp add: ashanti_row_def getp_add ashanti_2025_def year_record_def)

lemma getp_ashanti_row:
  "getp ashanti_row ''taxpayers'' = num_val 100" "getp ashanti_row ''averageTax'' = num_val 2"
  "getp ashanti_row ''totalTax'' = num_val 200" "getp ashanti_row ''salaryTaxpayers'' = num_val 60"
  "getp ashanti_row ''eVatTaxpayers'' = num_val 30" "getp ashanti_row ''otherTaxpayers'' = num_val 10"
  "getp ashanti_row ''complianceRate'' = num_val (9 / 10)"
  by (simp_all add: ashanti_row_def getp_add ashanti_2025_def year_record_def)

lemma getp_volta_row_region: "getp volta_row ''region'' = Str ''Volta''"
  by (simp add: volta_row_def getp_add volta_2025_def year_record_def)

lemma getp_volta:
  "getp ([''region'' \<mapsto> Str ''Volta''] ++ volta_2025) ''taxpayers'' = num_val 300"
  "getp ([''region'' \<mapsto> Str ''Volta''] ++ volta_2025) ''totalTax'' = num_val 300"
  "getp ([''region'' \<mapsto> Str ''Volta''] ++ volta_2025) ''complianceRate'' = num_val (5 / 10)"
  by (simp_all add: getp_add volta_2025_def year_record_def)

lemma getp_sample_records:
  "getp ashanti_2025 ''taxpayers'' = num_val 100" "getp volta_2025 ''taxpayers'' = num_val 300"
  by (simp_all add: ashanti_2025_def volta_2025_def year_record_def)

lemma getp_sample_sources:
  "getp ashanti_2024 ''salaryTaxpayers'' = num_val 50" "getp ashanti_2024 ''eVatTaxpayers'' = num_val 30"
  "getp ashanti_2024 ''otherTaxpayers'' = num_val 10"
  "getp ashanti_2025 ''salaryTaxpayers'' = num_val 60" "getp ashanti_2025 ''eVatTaxpayers'' = num_val 30"
  "getp ashanti_2025 ''otherTaxpayers'' = num_val 10"
  "getp volta_2025 ''salaryTaxpayers'' = num_val 100" "getp volta_2025 ''eVatTaxpayers'' = num_val 100"
  "getp volta_2025 ''otherTaxpayers'' = num_val 50"
  by (simp_all add: ashanti_2024_def ashanti_2025_def volta_2025_def year_record_def)

lemma yearData_of_samples:
  "yearData_of 2025 \<lparr>region = ''Ashanti'', yearlyData = [ashanti_2024, ashanti_2025]\<rparr> = ashanti_2025"
  "yearData_of 2025 \<lparr>region = ''Volta'', yearlyData = [volta_2025]\<rparr> = volta_2025"
  by (simp_all add: yearData_of_def)

lemma validateForm_invalid_form:
  "validateForm invalid_form
     = [''Average Tax cannot be negative.'', ''Compliance Rate must be between 0 and 1.'',
        ''Sum of Salary, E-VAT, and Other Taxpayers cannot exceed Total Taxpayers.'']"
  unfolding invalid_form_def
  by (simp add: validateForm_numbers [OF has_numbers_year_record] violated_messages_def)

lemma validateEdit_invalid_form:
  "validateEdit invalid_form
     = [''Average Tax cannot be negative.'', ''Compliance Rate must be between 0 and 100%.'',
        ''Sum of Salary, E-VAT, and Other Taxpayers cannot exceed Total Taxpayers.'']"
  unfolding invalid_form_def
  by (simp add: validateEdit_numbers [OF has_numbers_year_record] violated_messages_def)

lemma validateForm_valid_form: "validateForm valid_form = []"
  unfolding valid_form_def
  by (simp add: validateForm_numbers [OF has_numbers_year_record] violated_messages_def)

lemma validateEdit_staged: "validateEdit (ashanti_row ++ valid_form) = []"
  unfolding valid_form_def
  by (simp add: validateEdit_numbers [OF has_numbers_override [OF has_numbers_year_record]]
        violated_messages_def)

lemma keyed_sample_store: "keyed_by_region sample_store"
  by (simp add: keyed_by_region_def sample_store_def)

lemma map_of_sample_Ashanti:
  "map_of sample_store ''Ashanti''
     = Some \<lparr>region = ''Ashanti'', yearlyData = [ashanti_2024, ashanti_2025]\<rparr>"
  by (simp add: sample_store_def)

lemma at_most_one_Ashanti:
  "at_most_one 2025
     (yearlyData \<lparr>region = ''Ashanti'', yearlyData = [ashanti_2024, ashanti_2025]\<rparr>)"
  by (simp add: at_most_one_def)

lemma mergeYear_sample_absent:
  "mergeYear 2023 c [ashanti_2024, ashanti_2025]
     = [ashanti_2024, ashanti_2025, c(''year'' \<mapsto> year_val 2023)]"
  by (simp add: mergeYear_def)

lemma mergeYear_sample:
  "mergeYear 2025 c [ashanti_2024, ashanti_2025] = [ashanti_2024, c(''year'' \<mapsto> year_val 2025)]"
  by (simp add: mergeYear_def)

lemma writeYear_sample:
  "writeYear True True (Str ''Ashanti'') 2025 e sample_store
     = Some [(''Ashanti'', \<lparr>region = ''Ashanti'',
                yearlyData = [ashanti_2024, e(''year'' \<mapsto> year_val 2025)]\<rparr>),
             (''Volta'', \<lparr>region = ''Volta'', yearlyData = [volta_2025]\<rparr>)]"
  by (simp add: writeYear_def sample_store_def updateDoc_def mergeYear_def)

lemma ra_editing_fields:
  "editForm ra_editing = Some valid_form" "selectedRegion ra_editing = Some ashanti_row"
  "selectedYear ra_editing = 2025"
  by (simp_all add: ra_editing_def regional_analysis_initial_def)

lemma dashboard_editing_fields:
  "isEditing dashboard_editing = Some (Str ''Ashanti'', ''taxpayers'')"
  "editedData dashboard_editing (editKey (Str ''Ashanti'') 2025) = Some (ashanti_row ++ valid_form)"
  "selectedYear dashboard_editing = 2025"
  by (simp_all add: dashboard_editing_def dashboard_initial_def editKey_Ashanti_2025)

lemma regions_ra_editing: "regions ra_editing = [ashanti_row, volta_row]"
  by (simp add: ra_editing_def regional_analysis_initial_def processedRegions_def
      sample_store_def yearData_of_samples ashanti_row_def volta_row_def)

lemma rows_loaded:
  "regionalMetrics_of Map.empty 2025 (map snd sample_store)
     = [ashanti_row, [''region'' \<mapsto> Str ''Volta''] ++ volta_2025]"
  by (simp add: regionalMetrics_of_def sample_store_def yearData_of_samples ashanti_row_def)

lemma rows_dashboard_editing:
  "regionalMetrics (metrics dashboard_editing) = [ashanti_row, volta_row]"
  by (simp add: dashboard_editing_def dashboard_initial_def rows_loaded volta_row_def)

lemma saved_RegionalAnalysis_sample:
  "fst (saveEdits_RegionalAnalysis True True sample_store
          (ra_editing\<lparr>saving := sv, saveError := se\<rparr>)) = Saved"
  by (simp add: saveEdits_RegionalAnalysis_def validateForm_valid_form ra_editing_def
      regional_analysis_initial_def writeYear_sample)

lemma saved_Dashboard_sample:
  "fst (saveEdits_Dashboard True True sample_store
          (dashboard_editing\<lparr>loading := ld, saveError := se\<rparr>)) = Saved"
  by (simp add: saveEdits_Dashboard_def validateEdit_staged dashboard_editing_def
      dashboard_initial_def writeYear_sample editKey_Ashanti_2025)

lemma editedData_dashboard_loaded: "editedData dashboard_loaded = Map.empty"
  by (simp add: dashboard_loaded_def fetchRegions_Dashboard_def dashboard_initial_def)

lemma selectedYear_dashboard_loaded: "selectedYear dashboard_loaded = 2025"
  by (simp add: dashboard_loaded_def fetchRegions_Dashboard_def dashboard_initial_def)

lemma enterEditMode_ra_selected:
  "enterEditMode ra_selected
     = Some (ra_selected\<lparr>editMode := True,
               editForm := Some (year_record 100 2 200 60 30 10 (9 / 10))\<rparr>)"
  by (simp add: enterEditMode_def ra_selected_def getp_ashanti_row year_record_def
      fetchRegions_RegionalAnalysis_def regional_analysis_initial_def)

section \<open>C1: the national aggregate\<close>

lemma metrics_of_numeric:
  assumes "\<forall>r\<in>set rows. numeric_row r"
  shows "metrics_of rows
     = \<lparr>totalTaxpayers = num_val (column_sum ''taxpayers'' rows),
        totalTax = num_val (column_sum ''totalTax'' rows),
        avgTax = num_val (if 0 < column_sum ''taxpayers'' rows
                          then column_sum ''totalTax'' rows / column_sum ''taxpayers'' rows
                          else 0),
        avgCompliance = num_val (if 0 < column_sum ''taxpayers'' rows
                          then weighted_compliance_sum rows / column_sum ''taxpayers'' rows
                          else 0),
        regionalMetrics = rows\<rparr>"
proof -
  have t: "sum_of (\<lambda>r. getp r ''taxpayers'') rows = num_val (column_sum ''taxpayers'' rows)"
    using assms by (simp add: sum_of_fin numeric_row_def column_sum_def)
  have x: "sum_of (\<lambda>r. getp r ''totalTax'') rows = num_val (column_sum ''totalTax'' rows)"
    using assms by (simp add: sum_of_fin numeric_row_def column_sum_def)
  have "\<forall>r\<in>set rows. is_fin (js_mul (getp r ''complianceRate'') (getp r ''taxpayers''))"
    using assms by (simp add: numeric_row_def is_fin_js_mul)
  then have "sum_of (\<lambda>r. js_mul (getp r ''complianceRate'') (getp r ''taxpayers'')) rows
      = num_val (sum_list (map (\<lambda>r. fin_of (js_mul (getp r ''complianceRate'') (getp r ''taxpayers''))) rows))"
    by (rule sum_of_fin)
  also have "(map (\<lambda>r. fin_of (js_mul (getp r ''complianceRate'') (getp r ''taxpayers''))) rows)
      = map (\<lambda>r. fin_of (getp r ''complianceRate'') * fin_of (getp r ''taxpayers'')) rows"
    using assms by (simp add: numeric_row_def is_fin_js_mul)
  finally have w: "sum_of (\<lambda>r. js_mul (getp r ''complianceRate'') (getp r ''taxpayers'')) rows
      = num_val (weighted_compliance_sum rows)"
    by (simp add: weighted_compliance_sum_def)
  show ?thesis
    by (simp add: metrics_of_def Let_def t x w js_div_def)
qed


lemma stage_taxpayers_50: "stage_Dashboard ''taxpayers'' ''50'' = num_val 50"
  by (simp add: stage_Dashboard_def parse_defs js_or_def)

lemma dashboard_typing_eq:
  "dashboard_typing
     = dashboard_loaded\<lparr>saveError := None, isEditing := Some (Str ''Ashanti'', ''taxpayers''),
         editedData := [''Ashanti_2025'' \<mapsto> ashanti_row(''taxpayers'' \<mapsto> num_val 50)]\<rparr>"
  by (simp add: dashboard_typing_def handleEditChange_Dashboard_def startEditing_def Let_def
      pending_def editKey_Ashanti_2025 editedData_dashboard_loaded selectedYear_dashboard_loaded
      stage_taxpayers_50)

lemma rows_typing:
  "regionalMetrics_of [''Ashanti_2025'' \<mapsto> ashanti_row(''taxpayers'' \<mapsto> num_val 50)] 2025
       (map snd sample_store)
     = [ashanti_row ++ ashanti_row(''taxpayers'' \<mapsto> num_val 50),
        [''region'' \<mapsto> Str ''Volta''] ++ volta_2025]"
  by (simp add: regionalMetrics_of_def sample_store_def yearData_of_samples ashanti_row_def
      editKey_Ashanti_2025 editKey_Volta_2025)

lemma total_typing:
  "totalTaxpayers (metrics (fetchRegions_Dashboard True sample_store dashboard_typing))
     = num_val 350"
proof -
  have "metrics (fetchRegions_Dashboard True sample_store dashboard_typing)
      = metrics_of [ashanti_row ++ ashanti_row(''taxpayers'' \<mapsto> num_val 50),
                    [''region'' \<mapsto> Str ''Volta''] ++ volta_2025]"
    by (simp add: fetchRegions_Dashboard_def dashboard_typing_eq selectedYear_dashboard_loaded
        rows_typing)
  then show ?thesis
    by (simp add: metrics_of_def sum_of_def Let_def getp_volta)
qed

lemma total_selected:
  "sum_list (map (\<lambda>doc. fin_of (getp (yearData_of 2025 doc) ''taxpayers''))
        (map snd sample_store)) = 400"
  by (simp add: sample_store_def yearData_of_samples getp_sample_records)

lemma stage_taxpayers_negative: "stage_Dashboard ''taxpayers'' ''-500'' = num_val (- 500)"
  by (simp add: stage_Dashboard_def parse_defs js_or_def)

lemma dashboard_typing_negative_eq:
  "dashboard_typing_negative
     = dashboard_loaded\<lparr>saveError := None, isEditing := Some (Str ''Ashanti'', ''taxpayers''),
         editedData := [''Ashanti_2025'' \<mapsto> ashanti_row(''taxpayers'' \<mapsto> num_val (- 500))]\<rparr>"
  by (simp add: dashboard_typing_negative_def handleEditChange_Dashboard_def startEditing_def
      Let_def pending_def editKey_Ashanti_2025 editedData_dashboard_loaded
      selectedYear_dashboard_loaded stage_taxpayers_negative)

lemma rows_staged:
  "regionalMetrics_of [''Ashanti_2025'' \<mapsto> ashanti_row(''taxpayers'' \<mapsto> v)] 2025
       (map snd sample_store)
     = [ashanti_row ++ ashanti_row(''taxpayers'' \<mapsto> v),
        [''region'' \<mapsto> Str ''Volta''] ++ volta_2025]"
  by (simp add: regionalMetrics_of_def sample_store_def yearData_of_samples ashanti_row_def
      editKey_Ashanti_2025 editKey_Volta_2025)

lemma map_add_self [simp]: "m ++ m = m"
  by (rule ext) (simp add: map_add_def split: option.splits)

lemma totals_typing_negative:
  "totalTaxpayers (metrics (fetchRegions_Dashboard True sample_store dashboard_typing_negative))
     = num_val (- 200)
   \<and> totalTax (metrics (fetchRegions_Dashboard True sample_store dashboard_typing_negative))
     = num_val 500
   \<and> avgTax (metrics (fetchRegions_Dashboard True sample_store dashboard_typing_negative))
     = num_val 0"
proof -
  have "metrics (fetchRegions_Dashboard True sample_store dashboard_typing_negative)
      = metrics_of [ashanti_row ++ ashanti_row(''taxpayers'' \<mapsto> num_val (- 500)),
                    [''region'' \<mapsto> Str ''Volta''] ++ volta_2025]"
    by (simp add: fetchRegions_Dashboard_def dashboard_typing_negative_eq
        selectedYear_dashboard_loaded rows_staged)
  then show ?thesis
    by (simp add: metrics_of_def sum_of_def Let_def getp_volta getp_ashanti_row)
qed


lemma numeric_rows_loaded:
  "\<forall>r\<in>set [ashanti_row, [''region'' \<mapsto> Str ''Volta''] ++ volta_2025]. numeric_row r"
  by (simp add: numeric_row_def getp_ashanti_row getp_volta)

lemma rows_2024:
  "regionalMetrics_of Map.empty 2024 (map snd sample_store)
     = [[''region'' \<mapsto> Str ''Ashanti''] ++ ashanti_2024,
        [''region'' \<mapsto> Str ''Volta''] ++ zeroYearData]"
  by (simp add: regionalMetrics_of_def sample_store_def yearData_of_def)

lemma rows_2023:
  "regionalMetrics_of Map.empty 2023 (map snd sample_store)
     = [[''region'' \<mapsto> Str ''Ashanti''] ++ zeroYearData,
        [''region'' \<mapsto> Str ''Volta''] ++ zeroYearData]"
  by (simp add: regionalMetrics_of_def sample_store_def yearData_of_def)

lemma getp_rows_absent:
  "getp ([''region'' \<mapsto> Str n] ++ zeroYearData) ''taxpayers'' = num_val 0"
  "getp ([''region'' \<mapsto> Str n] ++ zeroYearData) ''totalTax'' = num_val 0"
  "getp ([''region'' \<mapsto> Str n] ++ zeroYearData) ''complianceRate'' = num_val 0"
  "getp ([''region'' \<mapsto> Str n] ++ ashanti_2024) ''taxpayers'' = num_val 90"
  "getp ([''region'' \<mapsto> Str n] ++ ashanti_2024) ''totalTax'' = num_val 180"
  "getp ([''region'' \<mapsto> Str n] ++ ashanti_2024) ''complianceRate'' = num_val (7 / 10)"
  by (simp_all add: getp_add zeroYearData_def ashanti_2024_def year_record_def)


section \<open>C2: the source breakdown\<close>




section \<open>C3: commit and re-fetch\<close>

text \<open>
  Claim C3. Take a store keyed by region name, the document \<open>doc\<close> of the edited region
  with at most one record for the selected year \<open>y\<close>, a candidate that passes
  validation (the edit form of RegionalAnalysis, the staged record of the Dashboard), and a
  transport that works. Then \<open>saveEdits\<close> saves, and afterwards the store holds under the
  region's key the old document with its year series merged, every other document being as
  before. The merged series is the old one with the record at the position of year \<open>y\<close>
  replaced by \<open>{ ...candidate, year: y }\<close> when the old series has a record of that year
  (that position is in range and holds a record of year \<open>y\<close>), and the old one with that
  record appended otherwise; the records of the other years are the same, in the same
  order. Selecting year \<open>y\<close> from the stored document, as a fetch does, gives back
  \<open>{ ...candidate, year: y }\<close>, equal as objects, hence property by property.
\<close>

theorem commit_roundtrip:
  assumes "keyed_by_region db" "map_of db name = Some doc" "at_most_one y (yearlyData doc)"
    and "editForm s = Some form" "validateForm form = []"
    and "selectedRegion s = Some sel" "getp sel ''region'' = Str name" "selectedYear s = y"
    and "isEditing t = Some (Str name, ef)" "editedData t (editKey (Str name) y) = Some e"
    and "validateEdit e = []" "selectedYear t = y"
  shows "fst (saveEdits_RegionalAnalysis True True db s) = Saved
       \<and> map_of (fst (snd (saveEdits_RegionalAnalysis True True db s))) name
           = Some (doc\<lparr>yearlyData := mergeYear y form (yearlyData doc)\<rparr>)
       \<and> (k \<noteq> name \<longrightarrow>
            map_of (fst (snd (saveEdits_RegionalAnalysis True True db s))) k = map_of db k)
       \<and> yearData_of y (doc\<lparr>yearlyData := mergeYear y form (yearlyData doc)\<rparr>)
           = form(''year'' \<mapsto> year_val y)
       \<and> fst (saveEdits_Dashboard True True db t) = Saved
       \<and> map_of (fst (snd (saveEdits_Dashboard True True db t))) name
           = Some (doc\<lparr>yearlyData := mergeYear y e (yearlyData doc)\<rparr>)
       \<and> (k \<noteq> name \<longrightarrow>
            map_of (fst (snd (saveEdits_Dashboard True True db t))) k = map_of db k)
       \<and> yearData_of y (doc\<lparr>yearlyData := mergeYear y e (yearlyData doc)\<rparr>)
           = e(''year'' \<mapsto> year_val y)
       \<and> (\<forall>c. mergeYear y c (yearlyData doc)
             = (if list_ex (is_year y) (yearlyData doc)
                then (yearlyData doc)[year_index y (yearlyData doc) := c(''year'' \<mapsto> year_val y)]
                else yearlyData doc @ [c(''year'' \<mapsto> year_val y)])
           \<and> filter (\<lambda>d. \<not> is_year y d) (mergeYear y c (yearlyData doc))
               = filter (\<lambda>d. \<not> is_year y d) (yearlyData doc))
       \<and> (list_ex (is_year y) (yearlyData doc) \<longrightarrow>
            year_index y (yearlyData doc) < length (yearlyData doc)
            \<and> is_year y (yearlyData doc ! year_index y (yearlyData doc)))"
proof -
  note ra = saveEdits_RegionalAnalysis_saved [OF assms(1,2,4,5,6,7), unfolded assms(8)]
  note da = saveEdits_Dashboard_saved [OF assms(1,2,9) _ assms(11), unfolded assms(12),
      OF assms(10)]
  note rw = written_store [OF assms(1,2) ra(2)]
  note dw = written_store [OF assms(1,2) da(2)]
  have m: "\<forall>c. mergeYear y c (yearlyData doc)
             = (if list_ex (is_year y) (yearlyData doc)
                then (yearlyData doc)[year_index y (yearlyData doc) := c(''year'' \<mapsto> year_val y)]
                else yearlyData doc @ [c(''year'' \<mapsto> year_val y)])
           \<and> filter (\<lambda>d. \<not> is_year y d) (mergeYear y c (yearlyData doc))
               = filter (\<lambda>d. \<not> is_year y d) (yearlyData doc)"
    using mergeYear_closed_form [OF assms(3)] mergeYear_other_years by blast
  have i: "list_ex (is_year y) (yearlyData doc) \<longrightarrow>
            year_index y (yearlyData doc) < length (yearlyData doc)
            \<and> is_year y (yearlyData doc ! year_index y (yearlyData doc))"
    using year_index_valid by blast
  show ?thesis
    using ra(1) da(1) rw dw m i yearData_of_merged [where y = y and doc = doc and e = form and ys = "yearlyData doc"]
      yearData_of_merged [where y = y and doc = doc and e = e and ys = "yearlyData doc"]
    by blast
qed

text \<open>Ashanti's record of 2025 in the sample store is replaced by the valid form, Volta's
  document is untouched, and the fetch selects the written record. For 2023, a year
  Ashanti has no record of, the merge appends.\<close>

theorem commit_roundtrip_witness:
  "fst (saveEdits_RegionalAnalysis True True sample_store ra_editing) = Saved
   \<and> map_of (fst (snd (saveEdits_RegionalAnalysis True True sample_store ra_editing))) ''Ashanti''
       = Some \<lparr>region = ''Ashanti'',
               yearlyData = [ashanti_2024, valid_form(''year'' \<mapsto> year_val 2025)]\<rparr>
   \<and> map_of (fst (snd (saveEdits_RegionalAnalysis True True sample_store ra_editing))) ''Volta''
       = map_of sample_store ''Volta''
   \<and> yearData_of 2025
        \<lparr>region = ''Ashanti'',
           yearlyData = [ashanti_2024, valid_form(''year'' \<mapsto> year_val 2025)]\<rparr>
       = valid_form(''year'' \<mapsto> year_val 2025)
   \<and> fst (saveEdits_Dashboard True True sample_store dashboard_editing) = Saved
   \<and> map_of (fst (snd (saveEdits_Dashboard True True sample_store dashboard_editing))) ''Ashanti''
       = Some \<lparr>region = ''Ashanti'',
               yearlyData = [ashanti_2024,
                             (ashanti_row ++ valid_form)(''year'' \<mapsto> year_val 2025)]\<rparr>
   \<and> yearData_of 2025
        \<lparr>region = ''Ashanti'',
           yearlyData = [ashanti_2024,
                         (ashanti_row ++ valid_form)(''year'' \<mapsto> year_val 2025)]\<rparr>
       = (ashanti_row ++ valid_form)(''year'' \<mapsto> year_val 2025)
   \<and> mergeYear 2023 valid_form [ashanti_2024, ashanti_2025]
       = [ashanti_2024, ashanti_2025, valid_form(''year'' \<mapsto> year_val 2023)]"
  using commit_roundtrip [OF keyed_sample_store map_of_sample_Ashanti at_most_one_Ashanti
      ra_editing_fields(1) validateForm_valid_form ra_editing_fields(2)
      getp_ashanti_row_region ra_editing_fields(3)
      dashboard_editing_fields(1,2) validateEdit_staged dashboard_editing_fields(3),
      of "''Volta''"]
  by (simp add: mergeYear_sample mergeYear_sample_absent year_index_def)

section \<open>C4: staging an edit\<close>

text \<open>
  Claim C4, as stated, fails on both handlers. The edit form of RegionalAnalysis takes
  the compliance rate as a fraction and does not divide by 100: the input "85" is stored
  as 85, where the rule of the specification gives 0.85. The Dashboard parses every field
  other than the compliance rate with \<open>parseInt\<close>, the decimal fields included: the
  input "12.5" for \<open>averageTax\<close> is stored as 12, where a float parse gives 12.5.
\<close>

theorem stage_counterexample:
  "stage_RegionalAnalysis ''85'' = num_val 85
   \<and> spec_stage ''complianceRate'' ''85'' = num_val (85 / 100)
   \<and> stage_RegionalAnalysis ''85'' \<noteq> spec_stage ''complianceRate'' ''85''
   \<and> stage_Dashboard ''averageTax'' ''12.5'' = num_val 12
   \<and> spec_stage ''averageTax'' ''12.5'' = num_val (25 / 2)
   \<and> stage_Dashboard ''averageTax'' ''12.5'' \<noteq> spec_stage ''averageTax'' ''12.5''"
  by (simp add: stage_RegionalAnalysis_def stage_Dashboard_def spec_stage_def parse_defs
        js_or_def js_div_def)

text \<open>
  Claim C4, amended. \<open>Dashboard.handleEditChange\<close> merges into the pending edit of the
  row's region and the selected year (an empty one if none is staged) the field set to:
  for \<open>complianceRate\<close>, the float parse of the raw input divided by 100 (\<open>NaN\<close> when
  the parse fails); for every other field, \<open>parseInt\<close> of the raw input without its
  commas, 0 when that is \<open>NaN\<close>. \<open>RegionalAnalysis.handleEditChange\<close> sets the field
  of the form, whichever it is, to the float parse of the raw input, 0 when that is
  \<open>NaN\<close>, and to the empty string when the input is empty; it strips no separator and
  does not divide. In the Dashboard the raw input "85" for \<open>complianceRate\<close> is stored
  as 0.85, "abc" as \<open>NaN\<close>; "1,234,567" for \<open>taxpayers\<close> is stored as 1234567 and
  "abc" as 0. In the form of RegionalAnalysis "0.85" is stored as 0.85, "1,234" as 1 and
  "abc" as 0.
\<close>

theorem stage_by_component:
  "editedData (handleEditChange_Dashboard row field v s)
       (editKey (getp row ''region'') (selectedYear s))
     = Some ((pending s (editKey (getp row ''region'') (selectedYear s)))
               (field \<mapsto> (if field = ''complianceRate''
                            then Number (num_div (parseFloat v) (Fin 100))
                            else or_zero (parseInt (filter (\<lambda>c. c \<noteq> CHR '','') v)))))
   \<and> editForm (handleEditChange_RegionalAnalysis field v t)
     = Some ((case editForm t of None \<Rightarrow> Map.empty | Some prev \<Rightarrow> prev)
               (field \<mapsto> (if v = [] then Str [] else or_zero (parseFloat v))))
   \<and> stage_Dashboard ''complianceRate'' ''85'' = num_val (85 / 100)
   \<and> stage_Dashboard ''complianceRate'' ''abc'' = Number NaN
   \<and> stage_Dashboard ''taxpayers'' ''1,234,567'' = num_val 1234567
   \<and> stage_Dashboard ''taxpayers'' ''abc'' = num_val 0
   \<and> stage_RegionalAnalysis ''0.85'' = num_val (85 / 100)
   \<and> stage_RegionalAnalysis ''1,234'' = num_val 1
   \<and> stage_RegionalAnalysis ''abc'' = num_val 0"
proof -
  have a: "stage_Dashboard ''complianceRate'' ''85'' = num_val (85 / 100)"
    by (simp add: stage_Dashboard_def js_div_def parse_defs)
  have b: "stage_Dashboard ''complianceRate'' ''abc'' = Number NaN"
    by (simp add: stage_Dashboard_def js_div_def parse_defs)
  have c: "stage_Dashboard ''taxpayers'' ''1,234,567'' = num_val 1234567"
    by (simp add: stage_Dashboard_def js_or_def parse_defs)
  have d: "stage_Dashboard ''taxpayers'' ''abc'' = num_val 0"
    by (simp add: stage_Dashboard_def js_or_def parse_defs)
  have e: "stage_RegionalAnalysis ''0.85'' = num_val (85 / 100)"
    by (simp add: stage_RegionalAnalysis_def js_or_def parse_defs)
  have f: "stage_RegionalAnalysis ''1,234'' = num_val 1"
    by (simp add: stage_RegionalAnalysis_def js_or_def parse_defs)
  have g: "stage_RegionalAnalysis ''abc'' = num_val 0"
    by (simp add: stage_RegionalAnalysis_def js_or_def parse_defs)
  have h: "editedData (handleEditChange_Dashboard row field v s)
       (editKey (getp row ''region'') (selectedYear s))
     = Some ((pending s (editKey (getp row ''region'') (selectedYear s)))
               (field \<mapsto> (if field = ''complianceRate''
                            then Number (num_div (parseFloat v) (Fin 100))
                            else or_zero (parseInt (filter (\<lambda>c. c \<noteq> CHR '','') v)))))"
    by (simp add: handleEditChange_Dashboard_def Let_def stage_Dashboard_def js_or_number
        js_div_def)
  have i: "editForm (handleEditChange_RegionalAnalysis field v t)
     = Some ((case editForm t of None \<Rightarrow> Map.empty | Some prev \<Rightarrow> prev)
               (field \<mapsto> (if v = [] then Str [] else or_zero (parseFloat v))))"
    by (simp add: handleEditChange_RegionalAnalysis_def stage_RegionalAnalysis_def js_or_number)
  from a b c d e f g h i show ?thesis by blast
qed

section \<open>C5: after a successful commit\<close>

text \<open>
  Claim C5, amended. After a \<open>saveEdits\<close> that saved: in RegionalAnalysis the pending
  edit is gone (\<open>editForm\<close> is cleared and edit mode left), and every snapshot row of the
  edited region, like the selected region, is the committed form with the region name; in
  the Dashboard \<open>isEditing\<close> is cleared, every snapshot row of the edited region is the
  staged record with the region name, and the aggregates are those of the updated rows,
  while \<open>editedData\<close> is as before the commit: the staged record stays under its region
  and year.
\<close>

theorem saved_commit_updates_snapshot:
  assumes "fst (saveEdits_RegionalAnalysis fo wo db s) = Saved"
    and "editForm s = Some form" "selectedRegion s = Some sel" "getp sel ''region'' = Str name"
    and "fst (saveEdits_Dashboard fo' wo' db' t) = Saved"
    and "isEditing t = Some (Str name', ef)"
    and "editedData t (editKey (Str name') (selectedYear t)) = Some e"
  shows "editForm (snd (snd (saveEdits_RegionalAnalysis fo wo db s))) = None
       \<and> editMode (snd (snd (saveEdits_RegionalAnalysis fo wo db s))) = False
       \<and> regions (snd (snd (saveEdits_RegionalAnalysis fo wo db s)))
           = map (\<lambda>r. if getp r ''region'' = Str name
                       then form(''region'' \<mapsto> Str name) else r) (regions s)
       \<and> selectedRegion (snd (snd (saveEdits_RegionalAnalysis fo wo db s)))
           = Some (form(''region'' \<mapsto> Str name))
       \<and> isEditing (snd (snd (saveEdits_Dashboard fo' wo' db' t))) = None
       \<and> regionalMetrics (metrics (snd (snd (saveEdits_Dashboard fo' wo' db' t))))
           = map (\<lambda>r. if getp r ''region'' = Str name'
                       then e(''region'' \<mapsto> Str name') else r) (regionalMetrics (metrics t))
       \<and> metrics (snd (snd (saveEdits_Dashboard fo' wo' db' t)))
           = metrics_of (regionalMetrics (metrics (snd (snd (saveEdits_Dashboard fo' wo' db' t)))))
       \<and> editedData (snd (snd (saveEdits_Dashboard fo' wo' db' t))) = editedData t"
  by (simp add: saved_state_RegionalAnalysis [OF assms(1-4)]
      saved_state_Dashboard [OF assms(5-7)])

text \<open>
  Claim C5, as stated, fails in the Dashboard: no path of the component removes an entry
  from \<open>editedData\<close>. On the sample store, the commit of the record staged for Ashanti
  and 2025 saves, and the record is still staged afterwards.
\<close>

theorem pending_edit_outlives_commit_counterexample:
  "fst (saveEdits_Dashboard True True sample_store dashboard_editing) = Saved
   \<and> editedData (snd (snd (saveEdits_Dashboard True True sample_store dashboard_editing)))
       ''Ashanti_2025''
     = Some (ashanti_row ++ valid_form)"
proof -
  have s: "fst (saveEdits_Dashboard True True sample_store dashboard_editing) = Saved"
    using saved_Dashboard_sample [where ld = False and se = None]
    by (simp add: dashboard_editing_def dashboard_initial_def)
  have e: "editedData dashboard_editing (editKey (Str ''Ashanti'') (selectedYear dashboard_editing))
      = Some (ashanti_row ++ valid_form)"
    by (simp add: dashboard_editing_fields)
  have k: "editedData dashboard_editing ''Ashanti_2025'' = Some (ashanti_row ++ valid_form)"
    using dashboard_editing_fields(2) by (simp add: editKey_Ashanti_2025)
  have "editedData (snd (snd (saveEdits_Dashboard True True sample_store dashboard_editing)))
      = editedData dashboard_editing"
    by (simp add: saved_state_Dashboard [OF s dashboard_editing_fields(1) e])
  with s k show ?thesis by simp
qed

text \<open>The commit of the valid form for Ashanti and 2025 on the sample store, in both
  components.\<close>

theorem saved_commit_updates_snapshot_witness:
  "editForm (snd (snd (saveEdits_RegionalAnalysis True True sample_store ra_editing))) = None
   \<and> regions (snd (snd (saveEdits_RegionalAnalysis True True sample_store ra_editing)))
       = [valid_form(''region'' \<mapsto> Str ''Ashanti''), volta_row]
   \<and> selectedRegion (snd (snd (saveEdits_RegionalAnalysis True True sample_store ra_editing)))
       = Some (valid_form(''region'' \<mapsto> Str ''Ashanti''))
   \<and> isEditing (snd (snd (saveEdits_Dashboard True True sample_store dashboard_editing))) = None
   \<and> regionalMetrics
        (metrics (snd (snd (saveEdits_Dashboard True True sample_store dashboard_editing))))
       = [(ashanti_row ++ valid_form)(''region'' \<mapsto> Str ''Ashanti''), volta_row]
   \<and> editedData (snd (snd (saveEdits_Dashboard True True sample_store dashboard_editing)))
       = editedData dashboard_editing"
proof -
  have a: "fst (saveEdits_RegionalAnalysis True True sample_store ra_editing) = Saved"
    using saved_RegionalAnalysis_sample [where sv = False and se = None]
    by (simp add: ra_editing_def regional_analysis_initial_def)
  have b: "fst (saveEdits_Dashboard True True sample_store dashboard_editing) = Saved"
    using saved_Dashboard_sample [where ld = False and se = None]
    by (simp add: dashboard_editing_def dashboard_initial_def)
  have e: "editedData dashboard_editing (editKey (Str ''Ashanti'') (selectedYear dashboard_editing))
      = Some (ashanti_row ++ valid_form)"
    by (simp add: dashboard_editing_fields)
  show ?thesis
    using saved_commit_updates_snapshot [OF a ra_editing_fields(1,2) getp_ashanti_row_region
        b dashboard_editing_fields(1) e]
    by (simp add: regions_ra_editing rows_dashboard_editing getp_volta_row_region)
qed

section \<open>C6: validation reports every violated constraint\<close>

lemma concat_blank_salary:
  "js_add (js_add (Str []) (num_val 30)) (num_val 10) = Str ''3010''"
  by (simp add: js_add_def num_to_string_def int_to_string_def digits_of.simps digit_char_def)

lemma string_to_number_3010: "string_to_number ''3010'' = Fin 3010"
  by (simp add: string_to_number_def trim_def scan_nondecimal_def parse_defs)

lemma getp_blank_salary_form:
  "getp blank_salary_form ''taxpayers'' = num_val 100"
  "getp blank_salary_form ''averageTax'' = num_val 2"
  "getp blank_salary_form ''totalTax'' = num_val 200"
  "getp blank_salary_form ''salaryTaxpayers'' = Str []"
  "getp blank_salary_form ''eVatTaxpayers'' = num_val 30"
  "getp blank_salary_form ''otherTaxpayers'' = num_val 10"
  "getp blank_salary_form ''complianceRate'' = num_val (9 / 10)"
  by (simp_all add: blank_salary_form_def year_record_def)

lemma validateForm_blank_salary:
  "validateForm blank_salary_form
     = [''Sum of Salary, E-VAT, and Other Taxpayers cannot exceed Total Taxpayers.'']"
  by (simp add: validateForm_def getp_blank_salary_form concat_blank_salary js_gt_def
      string_to_number_3010)

lemma blank_salary_staged:
  "map_option (\<lambda>s. editForm (handleEditChange_RegionalAnalysis ''salaryTaxpayers'' [] s))
       (enterEditMode ra_selected) = Some (Some blank_salary_form)"
  by (simp add: enterEditMode_ra_selected handleEditChange_RegionalAnalysis_def
       blank_salary_form_def stage_RegionalAnalysis_def)

lemma validate_no_taxpayers:
  "validateEdit no_taxpayers_record = []" "validateForm no_taxpayers_record = []"
  by (simp_all add: validateEdit_def validateForm_def no_taxpayers_record_def js_gt_def)



lemma safe_sample_counts: "safe_counts 10 8 5 0" "safe_counts 10 6 3 1"
  by (simp_all add: safe_counts_def)


section \<open>C7: a rejected commit writes nothing\<close>

text \<open>
  Claim C7. When the candidate record (the edit form of RegionalAnalysis, the staged
  record of the Dashboard) has at least one violation, \<open>saveEdits\<close> ends as a validation
  failure carrying the violation messages joined by a space, which it also puts in
  \<open>saveError\<close>; the store is returned as it was, whatever the transport would have
  done (the result does not depend on \<open>fo\<close> and \<open>wo\<close>: nothing is fetched or
  written), and nothing else of the state changes.
\<close>

theorem commit_rejects_invalid_without_write:
  assumes "editForm s = Some form" "validateForm form \<noteq> []"
    and "isEditing t = Some (er, ef)" "editedData t (editKey er (selectedYear t)) = Some e"
    and "validateEdit e \<noteq> []"
  shows "saveEdits_RegionalAnalysis fo wo db s
           = (ValidationFailure (join_space (validateForm form)), db,
              s\<lparr>saveError := Some (join_space (validateForm form))\<rparr>)
       \<and> saveEdits_Dashboard fo wo db t
           = (ValidationFailure (join_space (validateEdit e)), db,
              t\<lparr>saveError := Some (join_space (validateEdit e))\<rparr>)"
  using assms by (simp add: saveEdits_RegionalAnalysis_def saveEdits_Dashboard_def Let_def)

text \<open>The form with three violations, in either component, on the sample store: the three
  messages come back joined and the store is the sample store.\<close>

theorem commit_rejects_invalid_without_write_witness:
  "saveEdits_RegionalAnalysis True True sample_store
      (regional_analysis_initial\<lparr>editForm := Some invalid_form\<rparr>)
     = (ValidationFailure
          ''Average Tax cannot be negative. Compliance Rate must be between 0 and 1. Sum of Salary, E-VAT, and Other Taxpayers cannot exceed Total Taxpayers.'',
        sample_store,
        regional_analysis_initial\<lparr>editForm := Some invalid_form,
          saveError := Some ''Average Tax cannot be negative. Compliance Rate must be between 0 and 1. Sum of Salary, E-VAT, and Other Taxpayers cannot exceed Total Taxpayers.''\<rparr>)
   \<and> saveEdits_Dashboard True True sample_store
      (dashboard_initial\<lparr>isEditing := Some (Str ''Ashanti'', ''averageTax''),
         editedData := [''Ashanti_2025'' \<mapsto> invalid_form]\<rparr>)
     = (ValidationFailure
          ''Average Tax cannot be negative. Compliance Rate must be between 0 and 100%. Sum of Salary, E-VAT, and Other Taxpayers cannot exceed Total Taxpayers.'',
        sample_store,
        dashboard_initial\<lparr>isEditing := Some (Str ''Ashanti'', ''averageTax''),
          editedData := [''Ashanti_2025'' \<mapsto> invalid_form],
          saveError := Some ''Average Tax cannot be negative. Compliance Rate must be between 0 and 100%. Sum of Salary, E-VAT, and Other Taxpayers cannot exceed Total Taxpayers.''\<rparr>)"
  using commit_rejects_invalid_without_write
    [of "regional_analysis_initial\<lparr>editForm := Some invalid_form\<rparr>" invalid_form
        "dashboard_initial\<lparr>isEditing := Some (Str ''Ashanti'', ''averageTax''),
           editedData := [''Ashanti_2025'' \<mapsto> invalid_form]\<rparr>"
        "Str ''Ashanti''" "''averageTax''" invalid_form True True sample_store]
  by (simp add: validateForm_invalid_form validateEdit_invalid_form editKey_Ashanti_2025
        dashboard_initial_def regional_analysis_initial_def)

section \<open>C8: a failed write keeps the edit\<close>

text \<open>
  Claim C8. When validation passes and the store refuses the write, \<open>saveEdits\<close> ends as a
  persist failure with the message "Failed to save changes to Firestore. Please try
  again."; the store is as before, and of the state only \<open>saveError\<close> and the busy flag
  (\<open>saving\<close>, \<open>loading\<close>) are set: the region snapshot (\<open>regions\<close>, \<open>metrics\<close>) and the
  pending edit (\<open>editForm\<close>, \<open>editedData\<close>, \<open>isEditing\<close>) are untouched. A second
  \<open>saveEdits\<close> from the state left behind does, under any transport behaviour, what it
  would have done from the state before the failed attempt, so the commit can be retried
  with the input intact.
\<close>

theorem failed_write_keeps_edit:
  assumes "editForm s = Some form" "validateForm form = []"
    and "isEditing t = Some (er, ef)" "editedData t (editKey er (selectedYear t)) = Some e"
    and "validateEdit e = []"
  shows "saveEdits_RegionalAnalysis fo False db s
           = (PersistFailure save_failed, db, s\<lparr>saving := False, saveError := Some save_failed\<rparr>)
       \<and> saveEdits_RegionalAnalysis fo' wo' db (s\<lparr>saving := False, saveError := Some save_failed\<rparr>)
           = saveEdits_RegionalAnalysis fo' wo' db s
       \<and> saveEdits_Dashboard fo False db t
           = (PersistFailure save_failed, db, t\<lparr>loading := False, saveError := Some save_failed\<rparr>)
       \<and> saveEdits_Dashboard fo' wo' db (t\<lparr>loading := False, saveError := Some save_failed\<rparr>)
           = saveEdits_Dashboard fo' wo' db t"
  using assms
  by (simp add: saveEdits_RegionalAnalysis_def saveEdits_Dashboard_def Let_def
        caught_RegionalAnalysis_def split: option.splits)

text \<open>On the sample store, with Ashanti's row for 2025 under edit: the refused write
  leaves the failure message, and the retry with a working transport saves.\<close>

theorem failed_write_keeps_edit_witness:
  "saveEdits_RegionalAnalysis True False sample_store ra_editing
     = (PersistFailure ''Failed to save changes to Firestore. Please try again.'', sample_store,
        ra_editing\<lparr>saving := False,
          saveError := Some ''Failed to save changes to Firestore. Please try again.''\<rparr>)
   \<and> fst (saveEdits_RegionalAnalysis True True sample_store
        (ra_editing\<lparr>saving := False,
          saveError := Some ''Failed to save changes to Firestore. Please try again.''\<rparr>))
     = Saved
   \<and> saveEdits_Dashboard True False sample_store dashboard_editing
     = (PersistFailure ''Failed to save changes to Firestore. Please try again.'', sample_store,
        dashboard_editing\<lparr>loading := False,
          saveError := Some ''Failed to save changes to Firestore. Please try again.''\<rparr>)
   \<and> fst (saveEdits_Dashboard True True sample_store
        (dashboard_editing\<lparr>loading := False,
          saveError := Some ''Failed to save changes to Firestore. Please try again.''\<rparr>))
     = Saved"
proof -
  have a: "editForm ra_editing = Some valid_form"
    by (simp add: ra_editing_def)
  have b: "isEditing dashboard_editing = Some (Str ''Ashanti'', ''taxpayers'')"
    by (simp add: dashboard_editing_def)
  have c: "editedData dashboard_editing (editKey (Str ''Ashanti'') (selectedYear dashboard_editing))
             = Some (ashanti_row ++ valid_form)"
    by (simp add: dashboard_editing_def dashboard_initial_def editKey_Ashanti_2025)
  show ?thesis
    using failed_write_keeps_edit [OF a validateForm_valid_form b c validateEdit_staged,
        of True sample_store True True]
      saved_RegionalAnalysis_sample [where sv = False and se = "Some save_failed"]
      saved_Dashboard_sample [where ld = False and se = "Some save_failed"]
    by (simp add: save_failed_def)
qed

section \<open>C9: the view filter\<close>

lemma search_filter_named:
  "\<forall>r\<in>set rows. is_str (getp r ''region'') \<Longrightarrow>
   search_filter q rows
     = Inr (filter (\<lambda>r. sublist (toLowerCase q) (toLowerCase (region_name r))) rows)"
proof (induction rows)
  case Nil
  then show ?case by simp
next
  case (Cons r rows)
  from Cons.prems obtain n where n: "getp r ''region'' = Str n"
    by (cases "getp r ''region''") auto
  from Cons have "search_filter q rows
      = Inr (filter (\<lambda>r. sublist (toLowerCase q) (toLowerCase (region_name r))) rows)"
    by simp
  then show ?case
    by (simp add: n region_name_def str_includes_sublist)
qed

lemma of_char_lower_char:
  "(of_char (lower_char c) :: nat) = (if is_capital c then of_char c + 32 else of_char c)"
  by (auto simp: lower_char_def is_capital_def Let_def)

lemma lower_char_eq_iff: "(lower_char c = lower_char d) = same_letter c d"
proof -
  have "(lower_char c = lower_char d)
      = ((of_char (lower_char c) :: nat) = of_char (lower_char d))"
    by simp
  also have "\<dots> = same_letter c d"
    unfolding of_char_lower_char
    by (auto simp: same_letter_def is_capital_def)
  finally show ?thesis .
qed

lemma same_letter_sym: "same_letter c d \<Longrightarrow> same_letter d c"
  by (auto simp: same_letter_def)

lemma starts_ignoring_case_prefix:
  "starts_ignoring_case s q = prefix (toLowerCase q) (toLowerCase s)"
  by (induction s q rule: starts_ignoring_case.induct)
     (auto simp: toLowerCase_def lower_char_eq_iff dest: same_letter_sym)

lemma contains_ignoring_case_sublist:
  "contains_ignoring_case s q = sublist (toLowerCase q) (toLowerCase s)"
proof -
  have "contains_ignoring_case s q = str_includes (toLowerCase s) (toLowerCase q)"
    by (induction s) (auto simp: starts_ignoring_case_prefix toLowerCase_def)
  then show ?thesis by (simp add: str_includes_sublist)
qed

lemma search_filter_ignoring_case:
  "\<forall>r\<in>set rows. is_str (getp r ''region'') \<Longrightarrow>
   search_filter q rows
     = Inr (filter (\<lambda>r. contains_ignoring_case (region_name r) q) rows)"
  by (simp add: search_filter_named contains_ignoring_case_sublist)

lemma tab_filter_rate:
  "tab_filter tab r = rate_in_tier tab (to_number (getp r ''complianceRate''))"
proof (cases "getp r ''complianceRate''")
  case Undefined
  then show ?thesis by (simp add: tab_filter_def rate_in_tier_def)
next
  case (Str s)
  then show ?thesis
    by (cases "string_to_number s") (auto simp: tab_filter_def rate_in_tier_def in_tier_def)
next
  case (Number n)
  then show ?thesis
    by (cases n) (auto simp: tab_filter_def rate_in_tier_def in_tier_def)
qed

text \<open>
  Claim C9. On rows whose name is a string, \<open>filteredRegions\<close> throws nothing and
  returns the input rows, in their order, that satisfy both tests. The name contains the
  query case-insensitively: a contiguous run of the name agrees with the query letter
  for letter, two characters being the same letter when they are equal or one is a
  capital and the other the character 32 code units above it (on code units below 256;
  the statement does not go through \<open>toLowerCase\<close>). And the compliance rate, read as a
  number the way the comparison reads it, lies in the tier of the active tab (\<open>high\<close>:
  at least 0.8; \<open>medium\<close>: at least 0.5 and below 0.8; \<open>low\<close>: below 0.5; any other
  tab: no condition). A rate that is \<open>NaN\<close> or absent lies in no tier, so its row is
  returned under no tier tab and under the tab \<open>all\<close> only. With the empty query and the
  tab \<open>all\<close> the result is the input list itself.
\<close>

theorem filter_by_name_and_tier:
  assumes "\<forall>r\<in>set rows. is_str (getp r ''region'')"
  shows "filteredRegions tab q rows
           = Inr (filter (\<lambda>r. contains_ignoring_case (region_name r) q
                              \<and> rate_in_tier tab (to_number (getp r ''complianceRate''))) rows)
       \<and> filteredRegions ''all'' [] rows = Inr rows"
proof -
  have names: "\<forall>r\<in>set (filter (tab_filter t) rows). is_str (getp r ''region'')" for t
    using assms by simp
  have tier: "filter (tab_filter t) rows
      = filter (\<lambda>r. rate_in_tier t (to_number (getp r ''complianceRate''))) rows" for t
    by (rule filter_cong) (simp_all add: tab_filter_rate)
  have gen: "filteredRegions t p rows
           = Inr (filter (\<lambda>r. contains_ignoring_case (region_name r) p
                              \<and> rate_in_tier t (to_number (getp r ''complianceRate''))) rows)"
    for t p
  proof -
    have "filteredRegions t p rows
        = Inr (filter (\<lambda>r. contains_ignoring_case (region_name r) p)
                 (filter (tab_filter t) rows))"
      unfolding filteredRegions_def by (rule search_filter_ignoring_case [OF names])
    then show ?thesis
      by (simp add: tier conj_commute)
  qed
  have n: "contains_ignoring_case s []" for s
    by (induction s) simp_all
  have "filteredRegions ''all'' [] rows = Inr rows"
    by (simp add: gen rate_in_tier_def n)
  with gen show ?thesis by simp
qed

lemma contains_samples:
  "contains_ignoring_case ''Ashanti'' ''SHAN''" "\<not> contains_ignoring_case ''Volta'' ''SHAN''"
  "\<not> contains_ignoring_case ''Ashanti'' ''olT''" "contains_ignoring_case ''Volta'' ''olT''"
  "\<not> contains_ignoring_case ''Ashanti'' ''xyz''" "\<not> contains_ignoring_case ''Volta'' ''xyz''"
  "\<not> contains_ignoring_case ''Ashanti'' ''Ashantis''"
  "\<not> contains_ignoring_case ''Volta'' ''Ashantis''"
  "contains_ignoring_case ''Ashanti'' []" "contains_ignoring_case ''Volta'' []"
  by code_simp+

lemma named_sample_rows:
  "\<forall>r\<in>set [ashanti_row, volta_row, nan_edit]. is_str (getp r ''region'')"
  by (simp add: getp_volta_row_region nan_edit_def)

lemma region_name_samples:
  "region_name ashanti_row = ''Ashanti''" "region_name volta_row = ''Volta''"
  "region_name nan_edit = ''Ashanti''"
  by (simp_all add: region_name_def getp_volta_row_region nan_edit_def)

lemma rate_samples:
  "getp ashanti_row ''complianceRate'' = num_val (9 / 10)"
  "getp volta_row ''complianceRate'' = num_val (5 / 10)"
  "getp nan_edit ''complianceRate'' = Number NaN"
  by (simp_all add: getp_ashanti_row volta_row_def getp_volta nan_edit_def)

text \<open>Ashanti (0.9), Volta (0.5) and Ashanti's row with the rate \<open>NaN\<close>. The tab \<open>high\<close>
  with the query "SHAN" keeps Ashanti, \<open>medium\<close> keeps Volta, \<open>low\<close> keeps nothing: the
  row with \<open>NaN\<close> is in none of the three. Under the tab \<open>all\<close> the empty query keeps
  the three rows in their order, "SHAN" the two rows named Ashanti, "olT" Volta alone,
  and "xyz" or "Ashantis" no row.\<close>

theorem filter_by_name_and_tier_witness:
  "filteredRegions ''high'' ''SHAN'' [ashanti_row, volta_row, nan_edit] = Inr [ashanti_row]
   \<and> filteredRegions ''medium'' [] [ashanti_row, volta_row, nan_edit] = Inr [volta_row]
   \<and> filteredRegions ''low'' [] [ashanti_row, volta_row, nan_edit] = Inr []
   \<and> filteredRegions ''all'' [] [ashanti_row, volta_row, nan_edit]
       = Inr [ashanti_row, volta_row, nan_edit]
   \<and> filteredRegions ''all'' ''SHAN'' [ashanti_row, volta_row, nan_edit]
       = Inr [ashanti_row, nan_edit]
   \<and> filteredRegions ''all'' ''olT'' [ashanti_row, volta_row, nan_edit] = Inr [volta_row]
   \<and> filteredRegions ''all'' ''xyz'' [ashanti_row, volta_row, nan_edit] = Inr []
   \<and> filteredRegions ''all'' ''Ashantis'' [ashanti_row, volta_row, nan_edit] = Inr []"
  using filter_by_name_and_tier [OF named_sample_rows, of "''high''" "''SHAN''"]
    filter_by_name_and_tier [OF named_sample_rows, of "''medium''" "[]"]
    filter_by_name_and_tier [OF named_sample_rows, of "''low''" "[]"]
    filter_by_name_and_tier [OF named_sample_rows, of "''all''" "''SHAN''"]
    filter_by_name_and_tier [OF named_sample_rows, of "''all''" "''olT''"]
    filter_by_name_and_tier [OF named_sample_rows, of "''all''" "''xyz''"]
    filter_by_name_and_tier [OF named_sample_rows, of "''all''" "''Ashantis''"]
  by (simp add: contains_samples region_name_samples rate_samples rate_in_tier_def in_tier_def
      del: contains_ignoring_case.simps starts_ignoring_case.simps)

section \<open>C10: edits that are not numbers\<close>

lemma blank_staged:
  "map_option (handleEditChange_RegionalAnalysis ''averageTax'' []) (enterEditMode ra_selected)
     = Some ra_blank"
  by (simp add: enterEditMode_ra_selected handleEditChange_RegionalAnalysis_def ra_blank_def
       blank_form_def stage_RegionalAnalysis_def)

lemma validateForm_blank: "validateForm blank_form = []"
  by (simp add: validateForm_def blank_form_def year_record_def)

lemma saved_blank:
  "fst (saveEdits_RegionalAnalysis True True sample_store ra_blank) = Saved
   \<and> fst (snd (saveEdits_RegionalAnalysis True True sample_store ra_blank))
     = [(''Ashanti'', \<lparr>region = ''Ashanti'',
          yearlyData = [ashanti_2024, blank_form(''year'' \<mapsto> year_val 2025)]\<rparr>),
       (''Volta'', \<lparr>region = ''Volta'', yearlyData = [volta_2025]\<rparr>)]"
  by (simp add: saveEdits_RegionalAnalysis_def validateForm_blank ra_blank_def ra_selected_def
      fetchRegions_RegionalAnalysis_def regional_analysis_initial_def writeYear_sample)

lemma nan_staged:
  "handleEditChange_Dashboard ashanti_row ''complianceRate'' ''abc''
     (startEditing ashanti_row ''complianceRate'' dashboard_loaded) = dashboard_nan"
  by (simp add: handleEditChange_Dashboard_def startEditing_def dashboard_nan_def Let_def
      dashboard_loaded_def fetchRegions_Dashboard_def dashboard_initial_def pending_def
      editKey_Ashanti_2025 stage_Dashboard_def nan_edit_def parse_defs js_div_def)

lemma validateEdit_nan: "validateEdit nan_edit = []"
  by (simp add: validateEdit_def nan_edit_def getp_ashanti_row)

lemma saved_nan:
  "fst (saveEdits_Dashboard True True sample_store dashboard_nan) = Saved
   \<and> fst (snd (saveEdits_Dashboard True True sample_store dashboard_nan))
     = [(''Ashanti'', \<lparr>region = ''Ashanti'',
          yearlyData = [ashanti_2024, nan_edit(''year'' \<mapsto> year_val 2025)]\<rparr>),
       (''Volta'', \<lparr>region = ''Volta'', yearlyData = [volta_2025]\<rparr>)]"
  by (simp add: saveEdits_Dashboard_def validateEdit_nan dashboard_nan_def
      dashboard_loaded_def fetchRegions_Dashboard_def dashboard_initial_def writeYear_sample
      editKey_Ashanti_2025)

text \<open>
  Claim C10. Some raw inputs stage a value that is not a number, validation lets it
  through and the commit writes it. In the RegionalAnalysis form, entering edit mode on
  Ashanti's row and clearing the average tax (raw input the empty string) leaves the form
  \<open>blank_form\<close>, whose \<open>averageTax\<close> is the empty string; \<open>validateForm\<close> returns no
  message for it, and \<open>saveEdits\<close> saves: the record of 2025 in the store is then the
  form with the empty string in it. In the Dashboard, starting to edit the compliance rate
  of Ashanti's row and typing "abc" stages \<open>nan_edit\<close>, whose \<open>complianceRate\<close> is
  \<open>NaN\<close>; \<open>validateEdit\<close> returns no message for it, and \<open>saveEdits\<close> saves: the
  record of 2025 in the store then has \<open>NaN\<close> as its compliance rate.
\<close>

theorem nonnumeric_edit_is_persisted:
  "map_option (handleEditChange_RegionalAnalysis ''averageTax'' []) (enterEditMode ra_selected)
     = Some ra_blank
   \<and> editForm ra_blank = Some blank_form
   \<and> getp blank_form ''averageTax'' = Str []
   \<and> validateForm blank_form = []
   \<and> fst (saveEdits_RegionalAnalysis True True sample_store ra_blank) = Saved
   \<and> fst (snd (saveEdits_RegionalAnalysis True True sample_store ra_blank))
     = [(''Ashanti'', \<lparr>region = ''Ashanti'',
          yearlyData = [ashanti_2024, blank_form(''year'' \<mapsto> year_val 2025)]\<rparr>),
        (''Volta'', \<lparr>region = ''Volta'', yearlyData = [volta_2025]\<rparr>)]
   \<and> handleEditChange_Dashboard ashanti_row ''complianceRate'' ''abc''
       (startEditing ashanti_row ''complianceRate'' dashboard_loaded) = dashboard_nan
   \<and> editedData dashboard_nan ''Ashanti_2025'' = Some nan_edit
   \<and> getp nan_edit ''complianceRate'' = Number NaN
   \<and> validateEdit nan_edit = []
   \<and> fst (saveEdits_Dashboard True True sample_store dashboard_nan) = Saved
   \<and> fst (snd (saveEdits_Dashboard True True sample_store dashboard_nan))
     = [(''Ashanti'', \<lparr>region = ''Ashanti'',
          yearlyData = [ashanti_2024, nan_edit(''year'' \<mapsto> year_val 2025)]\<rparr>),
        (''Volta'', \<lparr>region = ''Volta'', yearlyData = [volta_2025]\<rparr>)]"
proof -
  have "editForm ra_blank = Some blank_form"
    by (simp add: ra_blank_def)
  moreover have "getp blank_form ''averageTax'' = Str []"
    by (simp add: blank_form_def)
  moreover have "editedData dashboard_nan ''Ashanti_2025'' = Some nan_edit"
    by (simp add: dashboard_nan_def)
  moreover have "getp nan_edit ''complianceRate'' = Number NaN"
    by (simp add: nan_edit_def)
  ultimately show ?thesis
    using blank_staged validateForm_blank saved_blank nan_staged validateEdit_nan saved_nan
    by simp
qed

end
